theory Spec2Isabelle
  imports Complex_Main "HOL-Library.Log_Nat"
begin

section \<open>JavaScript numbers\<close>

text \<open>
  The optimizer in \<^verbatim>\<open>src/App.jsx\<close> computes with JavaScript numbers: IEEE 754
  binary64 values under round-to-nearest, ties-to-even. A number is NaN, one of the two
  infinities, or a finite value, kept here as the rational it denotes. An arithmetic
  operator returns the binary64 value nearest to the exact result (\<open>rnd\<close> below), a
  value a binary64 holds (\<open>is_double\<close>). The sign of zero is not kept: \<^verbatim>\<open>rawLayout\<close> makes every input non-negative
  first, no operation it performs afterwards produces a negative zero, and the two zeros
  compare equal.
\<close>

datatype number = NaN | PInf | NInf | Fin rat

text \<open>
  The binary exponent of a positive rational, the \<open>e\<close> with
  \<open>2\<^sup>e \<le> x < 2\<^sup>e\<^sup>+\<^sup>1\<close>.
\<close>

definition floorlog2 :: "rat \<Rightarrow> int" where
  "floorlog2 x = (if 1 \<le> x then bitlen \<lfloor>x\<rfloor> - 1 else - bitlen (\<lceil>1 / x\<rceil> - 1))"

text \<open>Rounding to the nearest integer, a tie going to the even neighbour.\<close>

definition round_even :: "rat \<Rightarrow> int" where
  "round_even x =
     (let n = \<lfloor>x\<rfloor>; r = x - of_int n
      in if r < 1 / 2 then n else if 1 / 2 < r then n + 1 else if even n then n else n + 1)"

text \<open>
  The spacing of the binary64 grid around a positive \<open>x\<close>: 53 significant bits, and
  the fixed spacing \<open>2\<^sup>-\<^sup>1\<^sup>0\<^sup>7\<^sup>4\<close> of the subnormal range below \<open>2\<^sup>-\<^sup>1\<^sup>0\<^sup>2\<^sup>2\<close>.
\<close>

definition ulp :: "rat \<Rightarrow> rat" where
  "ulp x = power_int 2 (max (floorlog2 x) (- 1022) - 52)"

text \<open>The nearest grid point to a non-negative rational.\<close>

definition rnd_pos :: "rat \<Rightarrow> rat" where
  "rnd_pos x = (if x = 0 then 0 else of_int (round_even (x / ulp x)) * ulp x)"

text \<open>
  The binary64 value of a rational: the nearest grid point, and an infinity once that
  point reaches \<open>2\<^sup>1\<^sup>0\<^sup>2\<^sup>4\<close>.
\<close>

definition overflow_bound :: rat where
  "overflow_bound = 2 ^ 1024"

definition rnd :: "rat \<Rightarrow> number" where
  "rnd x =
     (let y = rnd_pos \<bar>x\<bar>
      in if overflow_bound \<le> y then (if 0 < x then PInf else NInf)
         else Fin (if 0 \<le> x then y else - y))"

text \<open>The values a binary64 can hold.\<close>

definition is_double :: "number \<Rightarrow> bool" where
  "is_double v = (case v of Fin x \<Rightarrow> rnd x = Fin x | _ \<Rightarrow> True)"

subsection \<open>Arithmetic\<close>

fun num_add :: "number \<Rightarrow> number \<Rightarrow> number" where
  "num_add NaN _ = NaN"
| "num_add _ NaN = NaN"
| "num_add PInf NInf = NaN"
| "num_add NInf PInf = NaN"
| "num_add PInf _ = PInf"
| "num_add NInf _ = NInf"
| "num_add _ PInf = PInf"
| "num_add _ NInf = NInf"
| "num_add (Fin a) (Fin b) = rnd (a + b)"

fun num_sub :: "number \<Rightarrow> number \<Rightarrow> number" where
  "num_sub NaN _ = NaN"
| "num_sub _ NaN = NaN"
| "num_sub PInf PInf = NaN"
| "num_sub NInf NInf = NaN"
| "num_sub PInf _ = PInf"
| "num_sub NInf _ = NInf"
| "num_sub _ PInf = NInf"
| "num_sub _ NInf = PInf"
| "num_sub (Fin a) (Fin b) = rnd (a - b)"

text \<open>The sign of a number that is not NaN: \<open>-1\<close>, \<open>0\<close> or \<open>1\<close>.\<close>

fun num_sgn :: "number \<Rightarrow> rat" where
  "num_sgn NaN = 0"
| "num_sgn PInf = 1"
| "num_sgn NInf = - 1"
| "num_sgn (Fin a) = sgn a"

definition signed_inf :: "rat \<Rightarrow> number" where
  "signed_inf s = (if 0 \<le> s then PInf else NInf)"

fun num_mul :: "number \<Rightarrow> number \<Rightarrow> number" where
  "num_mul NaN _ = NaN"
| "num_mul _ NaN = NaN"
| "num_mul (Fin a) (Fin b) = rnd (a * b)"
| "num_mul x y =
     (if num_sgn x = 0 \<or> num_sgn y = 0 then NaN else signed_inf (num_sgn x * num_sgn y))"

text \<open>
  Division: a zero divisor is taken as the positive zero, the only zero the optimizer
  can divide by.
\<close>

fun num_div :: "number \<Rightarrow> number \<Rightarrow> number" where
  "num_div NaN _ = NaN"
| "num_div _ NaN = NaN"
| "num_div (Fin a) (Fin b) =
     (if b = 0 then (if a = 0 then NaN else signed_inf a) else rnd (a / b))"
| "num_div (Fin a) _ = Fin 0"
| "num_div x (Fin b) = signed_inf (num_sgn x * (if b < 0 then - 1 else 1))"
| "num_div _ _ = NaN"

text \<open>\<^verbatim>\<open>Math.floor\<close>: the floor of a binary64 value is again one, so no rounding.\<close>

fun Math_floor :: "number \<Rightarrow> number" where
  "Math_floor (Fin a) = Fin (of_int \<lfloor>a\<rfloor>)"
| "Math_floor x = x"

subsection \<open>Comparisons\<close>

text \<open>\<^verbatim>\<open>x <= y\<close>, \<^verbatim>\<open>x >= y\<close> and \<^verbatim>\<open>x == y\<close>: false as soon as one side is NaN.\<close>

fun num_le :: "number \<Rightarrow> number \<Rightarrow> bool" where
  "num_le NaN _ = False"
| "num_le _ NaN = False"
| "num_le NInf _ = True"
| "num_le _ PInf = True"
| "num_le PInf _ = False"
| "num_le _ NInf = False"
| "num_le (Fin a) (Fin b) = (a \<le> b)"

definition num_ge :: "number \<Rightarrow> number \<Rightarrow> bool" where
  "num_ge x y = num_le y x"

definition num_eq :: "number \<Rightarrow> number \<Rightarrow> bool" where
  "num_eq x y = (x \<noteq> NaN \<and> x = y)"

definition num_lt :: "number \<Rightarrow> number \<Rightarrow> bool" where
  "num_lt x y = (num_le x y \<and> x \<noteq> y)"

text \<open>\<^verbatim>\<open>Math.max(x, y)\<close>: NaN if either argument is.\<close>

definition Math_max :: "number \<Rightarrow> number \<Rightarrow> number" where
  "Math_max x y = (if x = NaN \<or> y = NaN then NaN else if num_le x y then y else x)"

text \<open>\<^verbatim>\<open>x || y\<close> on numbers: the falsy numbers are NaN and zero.\<close>

definition or_else :: "number \<Rightarrow> number \<Rightarrow> number" where
  "or_else x y = (if x = NaN \<or> x = Fin 0 then y else x)"

text \<open>\<^verbatim>\<open>Number.EPSILON\<close>, the gap between 1 and the next binary64 value.\<close>

definition EPSILON :: number where
  "EPSILON = Fin (1 / 2 ^ 52)"

section \<open>The layout computation\<close>

text \<open>
  The two messages of the \<^verbatim>\<open>error\<close> field: "Las dimensiones deben ser positivas."
  and "Los margenes o pinza/cola son demasiado grandes para el pliego."
\<close>

datatype error = InvalidDimensions | MarginsExceedSheet

text \<open>The values of \<^verbatim>\<open>optimalKey\<close>: \<^verbatim>\<open>'A'\<close>, the normal layout, and \<^verbatim>\<open>'B'\<close>, the rotated one.\<close>

datatype key = A | B

text \<open>A candidate: \<^verbatim>\<open>layoutA\<close> or \<^verbatim>\<open>layoutB\<close>. The field \<^verbatim>\<open>total\<close> is \<open>total_l\<close> here.\<close>

record layout =
  total_l :: number
  fitW :: number
  fitH :: number
  rotated :: bool
  cutW :: number
  cutH :: number

text \<open>
  The object \<^verbatim>\<open>rawLayout\<close> holds. A property the source leaves out of the object,
  or sets to \<^verbatim>\<open>null\<close>, is \<open>None\<close>.
\<close>

record result =
  layoutA :: "layout option"
  layoutB :: "layout option"
  optimalKey :: "key option"
  sheetW :: number
  sheetH :: number
  grip :: number
  lateralMargin :: number
  gutter :: number
  tail :: number
  error :: "error option"

text \<open>
  \<^verbatim>\<open>Math.max(0, parseFloat(s) || 0)\<close>, which the source writes out for each of its
  eight fields; the argument is the value \<^verbatim>\<open>parseFloat\<close> returns for the field's
  text (NaN for text that does not start with a number).
\<close>

definition coerce :: "number \<Rightarrow> number" where
  "coerce parsed = Math_max (Fin 0) (or_else parsed (Fin 0))"

definition calculateFit :: "number \<Rightarrow> number \<Rightarrow> number \<Rightarrow> number" where
  "calculateFit usableLength pieceLength gutterLength =
     (if num_le (num_add pieceLength gutterLength) (Fin 0) then Fin 0
      else Math_floor
             (num_add (num_div (num_add usableLength gutterLength)
                               (num_add pieceLength gutterLength))
                      EPSILON))"

definition effectiveW :: "number \<Rightarrow> number \<Rightarrow> number" where
  "effectiveW SW LM = num_sub SW (num_mul (Fin 2) LM)"

definition effectiveH :: "number \<Rightarrow> number \<Rightarrow> number \<Rightarrow> number" where
  "effectiveH SH G_calc T_calc = num_sub (num_sub SH G_calc) T_calc"

text \<open>
  The body of the \<^verbatim>\<open>useMemo\<close> callback. Its eight arguments are the parsed texts of
  the state variables of the same names (primed where a field of the result has the
  name).
\<close>

definition rawLayout ::
  "number \<Rightarrow> number \<Rightarrow> number \<Rightarrow> number \<Rightarrow> number \<Rightarrow> number \<Rightarrow> number \<Rightarrow> number \<Rightarrow> result"
where
  "rawLayout cutWidth cutHeight sheetWidth sheetHeight lateralMargin' gutter' tail' grip' =
     (let CW = coerce cutWidth;
          CH = coerce cutHeight;
          SW = coerce sheetWidth;
          SH = coerce sheetHeight;
          LM = coerce lateralMargin';
          T_calc = coerce grip';
          G_calc = coerce tail';
          GT = coerce gutter'
      in if num_le CW (Fin 0) \<or> num_le CH (Fin 0) \<or> num_le SW (Fin 0) \<or> num_le SH (Fin 0)
         then \<lparr>layoutA = None, layoutB = None, optimalKey = None,
               sheetW = SW, sheetH = SH, grip = T_calc, lateralMargin = LM,
               gutter = GT, tail = G_calc, error = Some InvalidDimensions\<rparr>
         else if num_ge (num_add G_calc T_calc) SH \<or> num_ge (num_mul (Fin 2) LM) SW
         then \<lparr>layoutA = None, layoutB = None, optimalKey = None,
               sheetW = SW, sheetH = SH, grip = T_calc, lateralMargin = LM,
               gutter = GT, tail = G_calc, error = Some MarginsExceedSheet\<rparr>
         else
           let fitW1 = calculateFit (effectiveW SW LM) CW GT;
               fitH1 = calculateFit (effectiveH SH G_calc T_calc) CH GT;
               total1 = num_mul fitW1 fitH1;
               fitW2 = calculateFit (effectiveW SW LM) CH GT;
               fitH2 = calculateFit (effectiveH SH G_calc T_calc) CW GT;
               total2 = num_mul fitW2 fitH2
           in \<lparr>layoutA = Some \<lparr>total_l = total1, fitW = fitW1, fitH = fitH1,
                                 rotated = False, cutW = CW, cutH = CH\<rparr>,
                layoutB = Some \<lparr>total_l = total2, fitW = fitW2, fitH = fitH2,
                                 rotated = True, cutW = CH, cutH = CW\<rparr>,
                optimalKey = Some (if num_ge total1 total2 then A else B),
                sheetW = SW, sheetH = SH, grip = coerce grip', lateralMargin = LM,
                gutter = GT, tail = coerce tail', error = None\<rparr>)"

text \<open>
  The fit formula in the words of the specification: \<open>0\<close> when \<open>P + G \<le> 0\<close>, otherwise
  \<open>floor((L + G) / (P + G) + \<epsilon>)\<close>, the arithmetic being that of the numbers above.
\<close>

definition spec_fit :: "number \<Rightarrow> number \<Rightarrow> number \<Rightarrow> number \<Rightarrow> number" where
  "spec_fit eps L P G =
     (if num_le (num_add P G) (Fin 0) then Fin 0
      else Math_floor (num_add (num_div (num_add L G) (num_add P G)) eps))"

section \<open>Facts about rounding\<close>

lemma floorlog2_bounds:
  assumes "0 < x"
  shows "power_int 2 (floorlog2 x) \<le> x" and "x < power_int 2 (floorlog2 x + 1)"
proof -
  have "power_int 2 (floorlog2 x) \<le> x \<and> x < power_int 2 (floorlog2 x + 1)"
  proof (cases "1 \<le> x")
    case True
    define n where "n = \<lfloor>x\<rfloor>"
    have n1: "1 \<le> n" using True by (simp add: n_def)
    then have npos: "0 < n" by simp
    define k where "k = bitlen n"
    from bitlen_bounds[OF npos] have b: "2 ^ nat (k - 1) \<le> n" "n < 2 ^ nat k"
      by (simp_all add: k_def)
    have k1: "1 \<le> k"
      using npos bitlen_eq_zero_iff[of n] bitlen_nonneg[of n] unfolding k_def by linarith
    have fl: "floorlog2 x = k - 1" using True by (simp add: floorlog2_def n_def k_def)
    have "(2::rat) ^ nat (k - 1) \<le> of_int n" using b(1) by simp
    also have "\<dots> \<le> x" unfolding n_def by linarith
    finally have lo: "(2::rat) ^ nat (k - 1) \<le> x" .
    have "n + 1 \<le> 2 ^ nat k" using b(2) by simp
    then have "(of_int (n + 1) :: rat) \<le> of_int (2 ^ nat k)" by (simp only: of_int_le_iff)
    then have "of_int n + 1 \<le> (2::rat) ^ nat k" by simp
    moreover have "x < of_int n + 1" unfolding n_def by linarith
    ultimately have hi: "x < (2::rat) ^ nat k" by linarith
    show ?thesis using lo hi k1 by (simp add: fl power_int_def)
  next
    case False
    define y where "y = 1 / x"
    have y1: "1 < y" using False assms by (simp add: y_def)
    define n where "n = \<lceil>y\<rceil> - 1"
    have ny: "of_int n < y" "y \<le> of_int n + 1"
      using ceiling_correct[of y] by (simp_all add: n_def)
    have "(1::rat) < of_int n + 1" using y1 ny(2) by linarith
    then have "(0::rat) < of_int n" by simp
    then have n1: "1 \<le> n" by simp
    then have npos: "0 < n" by simp
    define k where "k = bitlen n"
    from bitlen_bounds[OF npos] have b: "2 ^ nat (k - 1) \<le> n" "n < 2 ^ nat k"
      by (simp_all add: k_def)
    have k1: "1 \<le> k"
      using npos bitlen_eq_zero_iff[of n] bitlen_nonneg[of n] unfolding k_def by linarith
    have fl: "floorlog2 x = - k" using False by (simp add: floorlog2_def n_def k_def y_def)
    have "n + 1 \<le> 2 ^ nat k" using b(2) by simp
    then have "(of_int (n + 1) :: rat) \<le> of_int (2 ^ nat k)" by (simp only: of_int_le_iff)
    then have "of_int n + 1 \<le> (2::rat) ^ nat k" by simp
    then have yhi: "y \<le> 2 ^ nat k" using ny(2) by linarith
    have "(2::rat) ^ nat (k - 1) \<le> of_int n" using b(1) by simp
    then have ylo: "2 ^ nat (k - 1) < y" using ny(1) by linarith
    have xy: "x = 1 / y" using assms by (simp add: y_def)
    have ypos: "0 < y" using y1 by simp
    have lo: "1 / 2 ^ nat k \<le> x"
      unfolding xy using yhi ypos by (simp add: frac_le)
    have hi: "x < 1 / 2 ^ nat (k - 1)"
      unfolding xy using ylo ypos by (simp add: frac_less2)
    have e1: "power_int (2::rat) (- k) = 1 / 2 ^ nat k"
      using k1 by (simp add: power_int_def inverse_eq_divide power_one_over)
    have e2: "power_int (2::rat) (1 - k) = 1 / 2 ^ nat (k - 1)"
    proof (cases "k = 1")
      case True then show ?thesis by simp
    next
      case False
      then have "1 - k < 0" using k1 by simp
      moreover have "nat (- (1 - k)) = nat (k - 1)" by simp
      ultimately show ?thesis by (simp add: power_int_def inverse_eq_divide power_one_over)
    qed
    show ?thesis using lo hi by (simp add: fl e1 e2)
  qed
  then show "power_int 2 (floorlog2 x) \<le> x" and "x < power_int 2 (floorlog2 x + 1)" by simp_all
qed


lemma floorlog2_unique:
  assumes "0 < x" "power_int 2 e \<le> x" "x < power_int 2 (e + 1)"
  shows "floorlog2 x = e"
proof (rule ccontr)
  assume ne: "floorlog2 x \<noteq> e"
  define f where "f = floorlog2 x"
  have fb: "power_int 2 f \<le> x" "x < power_int 2 (f + 1)"
    using floorlog2_bounds[OF assms(1)] by (simp_all add: f_def)
  consider "e + 1 \<le> f" | "f + 1 \<le> e" using ne unfolding f_def by linarith
  then show False
  proof cases
    case 1
    then have "power_int (2::rat) (e + 1) \<le> power_int 2 f"
      by (intro power_int_increasing) simp_all
    then show False using fb(1) assms(3) by linarith
  next
    case 2
    then have "power_int (2::rat) (f + 1) \<le> power_int 2 e"
      by (intro power_int_increasing) simp_all
    then show False using fb(2) assms(2) by linarith
  qed
qed

lemma floorlog2_mono:
  assumes "0 < x" "x \<le> y"
  shows "floorlog2 x \<le> floorlog2 y"
proof (rule ccontr)
  assume "\<not> floorlog2 x \<le> floorlog2 y"
  then have "floorlog2 y + 1 \<le> floorlog2 x" by simp
  then have "power_int (2::rat) (floorlog2 y + 1) \<le> power_int 2 (floorlog2 x)"
    by (intro power_int_increasing) simp_all
  moreover have "0 < y" using assms by simp
  ultimately show False
    using floorlog2_bounds(2)[of y] floorlog2_bounds(1)[OF assms(1)] assms(2) by linarith
qed

lemma round_even_of_int: "round_even (of_int n) = n"
  by (simp add: round_even_def)

lemma round_even_floor: "\<lfloor>x\<rfloor> \<le> round_even x" "round_even x \<le> \<lfloor>x\<rfloor> + 1"
  by (simp_all add: round_even_def Let_def)

lemma round_even_mono:
  assumes "x \<le> y"
  shows "round_even x \<le> round_even y"
proof (cases "\<lfloor>x\<rfloor> = \<lfloor>y\<rfloor>")
  case True
  have "x - of_int \<lfloor>y\<rfloor> \<le> y - of_int \<lfloor>y\<rfloor>" using assms by simp
  then show ?thesis
    by (simp add: round_even_def Let_def True)
next
  case False
  have "\<lfloor>x\<rfloor> \<le> \<lfloor>y\<rfloor>" using assms by (rule floor_mono)
  then have "\<lfloor>x\<rfloor> + 1 \<le> \<lfloor>y\<rfloor>" using False by simp
  then show ?thesis using round_even_floor(2)[of x] round_even_floor(1)[of y] by linarith
qed

lemma round_even_ge: "of_int n \<le> x \<Longrightarrow> n \<le> round_even x"
  using round_even_mono[of "of_int n" x] by (simp add: round_even_of_int)

lemma round_even_le: "x \<le> of_int n \<Longrightarrow> round_even x \<le> n"
  using round_even_mono[of x "of_int n"] by (simp add: round_even_of_int)


lemma ulp_pos: "0 < ulp x"
  by (simp add: ulp_def)

lemma ulp_shift: "power_int 2 (max (floorlog2 x) (- 1022)) = 2 ^ 52 * ulp x"
proof -
  define e where "e = max (floorlog2 x) (- 1022)"
  have "power_int (2::rat) ((e - 52) + 52) = power_int 2 (e - 52) * power_int 2 52"
    by (rule power_int_add) simp
  then show ?thesis by (simp add: ulp_def e_def)
qed

lemma ulp_shift1: "power_int 2 (max (floorlog2 x) (- 1022) + 1) = 2 ^ 53 * ulp x"
proof -
  define e where "e = max (floorlog2 x) (- 1022)"
  have "power_int (2::rat) ((e - 52) + 53) = power_int 2 (e - 52) * power_int 2 53"
    by (rule power_int_add) simp
  then show ?thesis by (simp add: ulp_def e_def ac_simps)
qed

lemma rnd_pos_nonneg: "0 \<le> x \<Longrightarrow> 0 \<le> rnd_pos x"
proof -
  assume x: "0 \<le> x"
  have "(of_int 0 :: rat) \<le> x / ulp x" using x ulp_pos[of x] by simp
  then have "0 \<le> round_even (x / ulp x)" by (rule round_even_ge)
  then show ?thesis using ulp_pos[of x] by (simp add: rnd_pos_def)
qed

lemma rnd_pos_upper:
  assumes "0 < x"
  shows "rnd_pos x \<le> power_int 2 (max (floorlog2 x) (- 1022) + 1)"
proof -
  have "x < power_int 2 (floorlog2 x + 1)" using assms by (rule floorlog2_bounds)
  also have "\<dots> \<le> power_int 2 (max (floorlog2 x) (- 1022) + 1)"
    by (intro power_int_increasing) simp_all
  also have "\<dots> = 2 ^ 53 * ulp x" by (rule ulp_shift1)
  finally have "x / ulp x \<le> 2 ^ 53" using ulp_pos[of x] by (simp add: field_simps)
  then have "x / ulp x \<le> of_int (2 ^ 53)" by simp
  then have "round_even (x / ulp x) \<le> 2 ^ 53" by (rule round_even_le)
  then have "(of_int (round_even (x / ulp x)) :: rat) \<le> of_int (2 ^ 53)"
    by (simp only: of_int_le_iff)
  then have "of_int (round_even (x / ulp x)) * ulp x \<le> 2 ^ 53 * ulp x"
    using ulp_pos[of x] by (simp del: of_int_le_iff)
  then show ?thesis using assms by (simp add: rnd_pos_def ulp_shift1)
qed

lemma rnd_pos_lower:
  assumes "0 < x" "- 1022 \<le> floorlog2 x"
  shows "power_int 2 (floorlog2 x) \<le> rnd_pos x"
proof -
  have m: "max (floorlog2 x) (- 1022) = floorlog2 x" using assms(2) by simp
  have "power_int 2 (floorlog2 x) \<le> x" using assms(1) by (rule floorlog2_bounds)
  then have "2 ^ 52 * ulp x \<le> x" using ulp_shift[of x] by (simp add: m)
  then have "2 ^ 52 \<le> x / ulp x" using ulp_pos[of x] by (simp add: field_simps)
  then have "of_int (2 ^ 52) \<le> x / ulp x" by simp
  then have "2 ^ 52 \<le> round_even (x / ulp x)" by (rule round_even_ge)
  then have "(of_int (2 ^ 52) :: rat) \<le> of_int (round_even (x / ulp x))"
    by (simp only: of_int_le_iff)
  then have "2 ^ 52 * ulp x \<le> of_int (round_even (x / ulp x)) * ulp x"
    using ulp_pos[of x] by (simp del: of_int_le_iff)
  then show ?thesis using assms(1) ulp_shift[of x] by (simp add: rnd_pos_def m)
qed

lemma rnd_pos_mono:
  assumes "0 \<le> x" "x \<le> y"
  shows "rnd_pos x \<le> rnd_pos y"
proof (cases "x = 0")
  case True
  then show ?thesis using rnd_pos_nonneg[of y] assms by (simp add: rnd_pos_def)
next
  case False
  then have x: "0 < x" using assms(1) by simp
  then have y: "0 < y" using assms(2) by simp
  define ex where "ex = max (floorlog2 x) (- 1022)"
  define ey where "ey = max (floorlog2 y) (- 1022)"
  have le: "ex \<le> ey" using floorlog2_mono[OF x assms(2)] by (simp add: ex_def ey_def)
  show ?thesis
  proof (cases "ex = ey")
    case True
    then have u: "ulp x = ulp y" by (simp add: ulp_def ex_def ey_def)
    have "x / ulp y \<le> y / ulp y" using assms(2) ulp_pos[of y] by (simp add: divide_right_mono)
    then have "round_even (x / ulp y) \<le> round_even (y / ulp y)" by (rule round_even_mono)
    then have "(of_int (round_even (x / ulp y)) :: rat) \<le> of_int (round_even (y / ulp y))"
      by (simp only: of_int_le_iff)
    then have "of_int (round_even (x / ulp y)) * ulp y \<le> of_int (round_even (y / ulp y)) * ulp y"
      using ulp_pos[of y] by (simp del: of_int_le_iff)
    then show ?thesis using x y by (simp add: rnd_pos_def u)
  next
    case False
    then have lt: "ex + 1 \<le> ey" using le by simp
    then have "- 1022 < ey" by (simp add: ex_def)
    then have ey: "ey = floorlog2 y" "- 1022 \<le> floorlog2 y" by (simp_all add: ey_def max_def split: if_splits)
    have "rnd_pos x \<le> power_int 2 (ex + 1)" using rnd_pos_upper[OF x] by (simp add: ex_def)
    also have "\<dots> \<le> power_int 2 ey" using lt by (intro power_int_increasing) simp_all
    also have "\<dots> \<le> rnd_pos y" using rnd_pos_lower[OF y ey(2)] by (simp add: ey(1))
    finally show ?thesis .
  qed
qed


lemma rnd_pos_eval:
  assumes "power_int 2 e \<le> x" "x < power_int 2 (e + 1)" "- 1022 \<le> e"
  shows "rnd_pos x = of_int (round_even (x / power_int 2 (e - 52))) * power_int 2 (e - 52)"
proof -
  have "(0::rat) < power_int 2 e" by simp
  then have x: "0 < x" using assms(1) by linarith
  have "floorlog2 x = e" using x assms(1,2) by (rule floorlog2_unique)
  then have "ulp x = power_int 2 (e - 52)" using assms(3) by (simp add: ulp_def)
  then show ?thesis using x by (simp add: rnd_pos_def)
qed

lemma rnd_eval:
  assumes "power_int 2 e \<le> x" "x < power_int 2 (e + 1)" "- 1022 \<le> e"
    and "round_even (x / power_int 2 (e - 52)) = m"
    and "of_int m * power_int 2 (e - 52) < overflow_bound"
  shows "rnd x = Fin (of_int m * power_int 2 (e - 52))"
proof -
  have "(0::rat) < power_int 2 e" by simp
  then have x: "0 < x" using assms(1) by linarith
  have "rnd_pos x = of_int m * power_int 2 (e - 52)"
    using rnd_pos_eval[OF assms(1-3)] assms(4) by simp
  then show ?thesis using x assms(5) by (simp add: rnd_def Let_def)
qed

lemma rnd_pos_overflow:
  assumes "0 \<le> v" "overflow_bound \<le> rnd_pos v"
  shows "0 < v"
proof (cases "v = 0")
  case True
  then show ?thesis using assms(2) by (simp add: rnd_pos_def overflow_bound_def)
next
  case False
  then show ?thesis using assms(1) by simp
qed

lemma rnd_nonneg:
  assumes "0 \<le> x"
  shows "rnd x = (if overflow_bound \<le> rnd_pos x then PInf else Fin (rnd_pos x))"
  using assms rnd_pos_overflow[of x] by (simp add: rnd_def Let_def)

lemma rnd_mono:
  assumes "0 \<le> x" "x \<le> y"
  shows "num_le (rnd x) (rnd y)"
proof -
  have y: "0 \<le> y" using assms by simp
  have m: "rnd_pos x \<le> rnd_pos y" using assms by (rule rnd_pos_mono)
  show ?thesis using m by (simp add: rnd_nonneg[OF assms(1)] rnd_nonneg[OF y])
qed

lemma floor_rat_numeral:
  "\<lfloor>(numeral a / numeral b :: rat)\<rfloor> = numeral a div numeral b"
  by (metis floor_divide_of_int_eq of_int_numeral)

lemma rnd_zero: "rnd 0 = Fin 0"
  by (simp add: rnd_def rnd_pos_def overflow_bound_def)

lemma rnd_exact:
  assumes "0 \<le> n" "n < 2 ^ 53" "- 1074 \<le> k" "k \<le> 971"
  shows "rnd (of_int n * power_int 2 k) = Fin (of_int n * power_int 2 k)"
proof (cases "n = 0")
  case True
  then show ?thesis by (simp add: rnd_zero)
next
  case False
  define x :: rat where "x = of_int n * power_int 2 k"
  have npos: "0 < n" using False assms(1) by simp
  then have x: "0 < x" by (simp add: x_def)
  have "(of_int n :: rat) < of_int (2 ^ 53)" using assms(2) by (simp only: of_int_less_iff)
  then have "(of_int n :: rat) < power_int 2 53" by simp
  then have "x < power_int 2 53 * power_int 2 k" by (simp add: x_def)
  also have "\<dots> = power_int 2 (53 + k)" by (simp add: power_int_add)
  finally have xlt: "x < power_int 2 (53 + k)" .
  have "power_int 2 (floorlog2 x) \<le> x" using x by (rule floorlog2_bounds)
  then have lt: "power_int (2::rat) (floorlog2 x) < power_int 2 (53 + k)" using xlt by linarith
  have e: "floorlog2 x < 53 + k"
  proof (rule ccontr)
    assume "\<not> floorlog2 x < 53 + k"
    then have "53 + k \<le> floorlog2 x" by simp
    then have "power_int (2::rat) (53 + k) \<le> power_int 2 (floorlog2 x)"
      by (intro power_int_increasing) simp_all
    then show False using lt by linarith
  qed
  define j where "j = max (floorlog2 x) (- 1022) - 52"
  have jk: "j \<le> k" using e assms(3) by (simp add: j_def)
  have u: "ulp x = power_int 2 j" by (simp add: ulp_def j_def)
  have "power_int (2::rat) ((k - j) + j) = power_int 2 (k - j) * power_int 2 j"
    by (rule power_int_add) simp
  then have split: "power_int (2::rat) k = power_int 2 (k - j) * power_int 2 j" by simp
  have "power_int (2::rat) (k - j) = 2 ^ nat (k - j)" using jk by (simp add: power_int_def)
  also have "\<dots> = of_int (2 ^ nat (k - j))" by simp
  finally have int: "power_int (2::rat) (k - j) = of_int (2 ^ nat (k - j))" .
  have xe: "x = (of_int n * power_int 2 (k - j)) * power_int 2 j"
    by (simp only: x_def split mult.assoc)
  have "x / power_int 2 j = of_int n * power_int 2 (k - j)"
    by (subst xe) simp
  then have "x / ulp x = of_int n * power_int 2 (k - j)"
    by (simp only: u)
  also have "\<dots> = of_int (n * 2 ^ nat (k - j))" by (simp only: int of_int_mult)
  finally have "round_even (x / ulp x) = n * 2 ^ nat (k - j)" by (simp only: round_even_of_int)
  then have "rnd_pos x = of_int (n * 2 ^ nat (k - j)) * power_int 2 j"
    using x by (simp add: rnd_pos_def u)
  also have "\<dots> = (of_int n * power_int 2 (k - j)) * power_int 2 j"
    by (simp only: of_int_mult int)
  also have "\<dots> = x" by (simp only: xe[symmetric])
  finally have r: "rnd_pos x = x" .
  have "power_int (2::rat) (53 + k) \<le> power_int 2 1024"
    using assms(4) by (intro power_int_increasing) simp_all
  then have "x < overflow_bound" using xlt by (simp add: overflow_bound_def)
  then show ?thesis using x r by (simp add: rnd_def Let_def x_def[symmetric])
qed

text \<open>Rounding lands on the grid: what \<open>rnd\<close> returns is a binary64 value.\<close>

lemma rnd_pos_idem:
  assumes "0 \<le> x" "rnd_pos x < overflow_bound"
  shows "rnd_pos (rnd_pos x) = rnd_pos x"
proof (cases "x = 0")
  case True
  then show ?thesis by (simp add: rnd_pos_def)
next
  case False
  then have x: "0 < x" using assms(1) by simp
  define e where "e = max (floorlog2 x) (- 1022)"
  define j where "j = e - 52"
  define m where "m = round_even (x / ulp x)"
  have u: "ulp x = power_int 2 j" by (simp add: ulp_def e_def j_def)
  have y: "rnd_pos x = of_int m * power_int 2 j" using x by (simp add: rnd_pos_def m_def u)
  have m0: "0 \<le> m"
  proof -
    have "(of_int 0 :: rat) \<le> x / ulp x" using x ulp_pos[of x] by simp
    then show ?thesis unfolding m_def by (rule round_even_ge)
  qed
  have jlo: "- 1074 \<le> j" by (simp add: j_def e_def)
  have e_hi: "e \<le> 1023"
  proof (rule ccontr)
    assume "\<not> e \<le> 1023"
    then have big: "1024 \<le> floorlog2 x" by (simp add: e_def)
    then have "power_int (2::rat) 1024 \<le> power_int 2 (floorlog2 x)"
      by (intro power_int_increasing) simp_all
    also have "\<dots> \<le> rnd_pos x" using x big by (intro rnd_pos_lower) simp_all
    finally show False using assms(2) by (simp add: overflow_bound_def)
  qed
  have upper: "rnd_pos x \<le> power_int 2 (e + 1)"
    using rnd_pos_upper[OF x] by (simp add: e_def)
  have e1: "power_int (2::rat) (e + 1) = 2 ^ 53 * power_int 2 j"
    using ulp_shift1[of x] by (simp add: e_def u)
  have "of_int m * power_int 2 j \<le> 2 ^ 53 * power_int (2::rat) j"
    using upper y e1 by simp
  then have "(of_int m :: rat) \<le> 2 ^ 53" by simp
  then have "(of_int m :: rat) \<le> of_int (2 ^ 53)" by simp
  then have m_hi: "m \<le> 2 ^ 53" by (simp only: of_int_le_iff)
  have r: "rnd (rnd_pos x) = Fin (rnd_pos x)"
  proof (cases "m = 2 ^ 53")
    case True
    have ye: "rnd_pos x = power_int 2 (e + 1)"
      unfolding y True e1 by (simp only: of_int_power of_int_numeral)
    have ob: "overflow_bound = power_int 2 1024" by (simp add: overflow_bound_def)
    have "power_int 2 (e + 1) < power_int (2::rat) 1024"
      using assms(2) unfolding ye ob .
    then have "e + 1 < 1024"
      by (rule power_int_le_imp_less_exp[rotated]) simp_all
    then have "rnd (of_int (2 ^ 52) * power_int 2 (j + 1)) = Fin (of_int (2 ^ 52) * power_int 2 (j + 1))"
      using jlo by (intro rnd_exact) (simp_all add: j_def)
    moreover have "power_int (2::rat) (j + 1) = power_int 2 j * 2"
      using power_int_add[of "2::rat" j 1] by simp
    then have "(of_int (2 ^ 52) :: rat) * power_int 2 (j + 1) = of_int m * power_int 2 j"
      using True by simp
    ultimately show ?thesis by (simp only: y)
  next
    case False
    then have "m < 2 ^ 53" using m_hi by simp
    then have "rnd (of_int m * power_int 2 j) = Fin (of_int m * power_int 2 j)"
      using m0 jlo e_hi by (intro rnd_exact) (simp_all add: j_def)
    then show ?thesis by (simp only: y)
  qed
  have "0 \<le> rnd_pos x" using assms(1) by (rule rnd_pos_nonneg)
  from rnd_nonneg[OF this] r show ?thesis by (simp split: if_splits)
qed

lemma rnd_is_double: "is_double (rnd x)"
proof (cases "overflow_bound \<le> rnd_pos \<bar>x\<bar>")
  case True
  then show ?thesis by (simp add: rnd_def Let_def is_double_def)
next
  case False
  then have i: "rnd_pos (rnd_pos \<bar>x\<bar>) = rnd_pos \<bar>x\<bar>" by (intro rnd_pos_idem) simp_all
  have n: "0 \<le> rnd_pos \<bar>x\<bar>" by (intro rnd_pos_nonneg) simp
  show ?thesis
  proof (cases "0 \<le> x")
    case True
    then show ?thesis using False i n by (simp add: rnd_def Let_def is_double_def)
  next
    case neg: False
    have "\<bar>- rnd_pos \<bar>x\<bar>\<bar> = rnd_pos \<bar>x\<bar>" using n by simp
    then show ?thesis using False neg i n
      by (auto simp: rnd_def Let_def is_double_def rnd_pos_def)
  qed
qed

section \<open>Facts about numbers and the layout\<close>

lemma num_add_commute: "num_add x y = num_add y x"
  by (cases x; cases y) (simp_all add: add.commute)

lemma rnd_not_NaN: "rnd x \<noteq> NaN"
  by (simp add: rnd_def Let_def)

lemma arithmetic_is_double:
  "is_double (num_add x y)" "is_double (num_sub x y)"
  "is_double (num_mul x y)" "is_double (num_div x y)"
proof -
  have z: "is_double (Fin 0)" "is_double NaN" "is_double PInf" "is_double NInf"
    "is_double (signed_inf s)" for s
    by (simp_all add: is_double_def rnd_zero signed_inf_def)
  show "is_double (num_add x y)" by (cases x; cases y) (simp_all add: z rnd_is_double)
  show "is_double (num_sub x y)" by (cases x; cases y) (simp_all add: z rnd_is_double)
  show "is_double (num_mul x y)" by (cases x; cases y) (simp_all add: z rnd_is_double)
  show "is_double (num_div x y)" by (cases x; cases y) (simp_all add: z rnd_is_double)
qed

lemma num_le_PInf: "x \<noteq> NaN \<Longrightarrow> num_le x PInf"
  by (cases x) simp_all

lemma Math_floor_mono: "num_le x y \<Longrightarrow> num_le (Math_floor x) (Math_floor y)"
  by (cases x; cases y) (simp_all add: floor_mono)

text \<open>Adding \<^verbatim>\<open>Number.EPSILON\<close> to a rounded non-negative quotient keeps the order.\<close>

lemma add_EPSILON_mono:
  assumes "0 \<le> x" "x \<le> y"
  shows "num_le (num_add (rnd x) EPSILON) (num_add (rnd y) EPSILON)"
proof -
  have y: "0 \<le> y" using assms by simp
  have m: "rnd_pos x \<le> rnd_pos y" using assms by (rule rnd_pos_mono)
  have px: "0 \<le> rnd_pos x" using assms(1) by (rule rnd_pos_nonneg)
  show ?thesis
  proof (cases "overflow_bound \<le> rnd_pos y")
    case True
    then have "num_add (rnd y) EPSILON = PInf"
      by (simp add: rnd_nonneg[OF y] EPSILON_def)
    moreover have "num_add (rnd x) EPSILON \<noteq> NaN"
      by (simp add: rnd_nonneg[OF assms(1)] EPSILON_def rnd_not_NaN)
    ultimately show ?thesis by (simp add: num_le_PInf)
  next
    case False
    then have nx: "\<not> overflow_bound \<le> rnd_pos x" using m by linarith
    have "num_le (rnd (rnd_pos x + 1 / 2 ^ 52)) (rnd (rnd_pos y + 1 / 2 ^ 52))"
      using px m by (intro rnd_mono) simp_all
    then show ?thesis
      using False nx by (simp add: rnd_nonneg[OF y] rnd_nonneg[OF assms(1)] EPSILON_def)
  qed
qed

text \<open>What the coercion of an input returns: never NaN, never negative.\<close>

lemma coerce_cases: "coerce p = PInf \<or> (\<exists>x. 0 \<le> x \<and> coerce p = Fin x)"
  by (cases p) (auto simp: coerce_def or_else_def Math_max_def)

lemma coerce_idem: "coerce (coerce p) = coerce p"
  by (cases p) (auto simp: coerce_def or_else_def Math_max_def)

lemma coerce_pos_iff: "num_lt (Fin 0) (coerce p) \<longleftrightarrow> \<not> num_le (coerce p) (Fin 0)"
  using coerce_cases[of p] by (auto simp: num_lt_def)

lemma coerce_Fin: "0 < x \<Longrightarrow> coerce (Fin x) = Fin x"
  by (simp add: coerce_def or_else_def Math_max_def)

lemma coerce_zero: "coerce NaN = Fin 0" "coerce (Fin 0) = Fin 0" "x < 0 \<Longrightarrow> coerce (Fin x) = Fin 0"
  by (simp_all add: coerce_def or_else_def Math_max_def)

lemma calculateFit_spec: "calculateFit L P G = spec_fit EPSILON L P G"
  by (simp add: calculateFit_def spec_fit_def)

text \<open>The result of a request that passes both checks, and when a request does.\<close>

lemma rawLayout_valid:
  assumes "error (rawLayout cw ch sw sh lm gu ta gr) = None"
  shows "rawLayout cw ch sw sh lm gu ta gr =
     \<lparr>layoutA = Some
         \<lparr>total_l =
            num_mul (calculateFit (effectiveW (coerce sw) (coerce lm)) (coerce cw) (coerce gu))
              (calculateFit (effectiveH (coerce sh) (coerce ta) (coerce gr)) (coerce ch) (coerce gu)),
          fitW = calculateFit (effectiveW (coerce sw) (coerce lm)) (coerce cw) (coerce gu),
          fitH = calculateFit (effectiveH (coerce sh) (coerce ta) (coerce gr)) (coerce ch) (coerce gu),
          rotated = False, cutW = coerce cw, cutH = coerce ch\<rparr>,
      layoutB = Some
         \<lparr>total_l =
            num_mul (calculateFit (effectiveW (coerce sw) (coerce lm)) (coerce ch) (coerce gu))
              (calculateFit (effectiveH (coerce sh) (coerce ta) (coerce gr)) (coerce cw) (coerce gu)),
          fitW = calculateFit (effectiveW (coerce sw) (coerce lm)) (coerce ch) (coerce gu),
          fitH = calculateFit (effectiveH (coerce sh) (coerce ta) (coerce gr)) (coerce cw) (coerce gu),
          rotated = True, cutW = coerce ch, cutH = coerce cw\<rparr>,
      optimalKey = Some
         (if num_ge
               (num_mul (calculateFit (effectiveW (coerce sw) (coerce lm)) (coerce cw) (coerce gu))
                  (calculateFit (effectiveH (coerce sh) (coerce ta) (coerce gr)) (coerce ch) (coerce gu)))
               (num_mul (calculateFit (effectiveW (coerce sw) (coerce lm)) (coerce ch) (coerce gu))
                  (calculateFit (effectiveH (coerce sh) (coerce ta) (coerce gr)) (coerce cw) (coerce gu)))
          then A else B),
      sheetW = coerce sw, sheetH = coerce sh, grip = coerce gr, lateralMargin = coerce lm,
      gutter = coerce gu, tail = coerce ta, error = None\<rparr>"
  using assms by (simp add: rawLayout_def Let_def split: if_splits)

lemma rawLayout_error_iff:
  "error (rawLayout cw ch sw sh lm gu ta gr) = None \<longleftrightarrow>
     \<not> (num_le (coerce cw) (Fin 0) \<or> num_le (coerce ch) (Fin 0)
          \<or> num_le (coerce sw) (Fin 0) \<or> num_le (coerce sh) (Fin 0))
     \<and> \<not> (num_ge (num_add (coerce ta) (coerce gr)) (coerce sh)
          \<or> num_ge (num_mul (Fin 2) (coerce lm)) (coerce sw))"
  by (simp add: rawLayout_def Let_def)

section \<open>Concrete requests\<close>

text \<open>
  The requests the claims below are run on. Each rounding a request performs is settled
  by a lemma of its own: the binary exponent and the rounded significand are given, and
  the simplifier checks them against the definition of \<open>rnd\<close>. A decimal text that is
  not a binary fraction enters as \<open>rnd\<close> of its value, which is what
  \<^verbatim>\<open>parseFloat\<close> returns for it.
\<close>

subsection \<open>Scenario 1 of the specification, and the same request with the piece turned\<close>

lemma s1_rnd_exact:
  "rnd (3 / 4) = Fin (3 / 4)"
  "rnd (7 / 8) = Fin (7 / 8)"
  "rnd 1 = Fin 1"
  "rnd (3314446916772669 / 2251799813685248) = Fin (3314446916772669 / 2251799813685248)"
  "rnd (8550312336022247 / 4503599627370496) = Fin (8550312336022247 / 4503599627370496)"
  "rnd (4301190655353845 / 2251799813685248) = Fin (4301190655353845 / 2251799813685248)"
  "rnd 2 = Fin 2"
  "rnd (69 / 8) = Fin (69 / 8)"
  "rnd (89 / 8) = Fin (89 / 8)"
  "rnd (65 / 4) = Fin (65 / 4)"
  "rnd (131 / 8) = Fin (131 / 8)"
  "rnd (169 / 8) = Fin (169 / 8)"
  "rnd (85 / 4) = Fin (85 / 4)"
  "rnd (173 / 8) = Fin (173 / 8)"
  using
    rnd_exact[of "3" "-2"]
    rnd_exact[of "7" "-3"]
    rnd_exact[of "1" "0"]
    rnd_exact[of "3314446916772669" "-51"]
    rnd_exact[of "8550312336022247" "-52"]
    rnd_exact[of "4301190655353845" "-51"]
    rnd_exact[of "2" "0"]
    rnd_exact[of "69" "-3"]
    rnd_exact[of "89" "-3"]
    rnd_exact[of "65" "-2"]
    rnd_exact[of "131" "-3"]
    rnd_exact[of "169" "-3"]
    rnd_exact[of "85" "-2"]
    rnd_exact[of "173" "-3"]
  by simp_all

lemma s1_rnd_1: "rnd (131 / 89) = Fin (6628893833545337 / 4503599627370496)"
  using rnd_eval[where x="131 / 89" and e="0" and m="6628893833545337"]
  by (simp add: round_even_def Let_def overflow_bound_def floor_rat_numeral)

lemma s1_rnd_2: "rnd (131 / 69) = Fin (4275156168011123 / 2251799813685248)"
  using rnd_eval[where x="131 / 69" and e="0" and m="8550312336022246"]
  by (simp add: round_even_def Let_def overflow_bound_def floor_rat_numeral)

lemma s1_rnd_3: "rnd (170 / 89) = Fin (8602381310707689 / 4503599627370496)"
  using rnd_eval[where x="170 / 89" and e="0" and m="8602381310707689"]
  by (simp add: round_even_def Let_def overflow_bound_def floor_rat_numeral)

lemma s1_rnd_4: "rnd (170 / 69) = Fin (5547912584441915 / 2251799813685248)"
  using rnd_eval[where x="170 / 69" and e="1" and m="5547912584441915"]
  by (simp add: round_even_def Let_def overflow_bound_def floor_rat_numeral)

lemma s1_rnd_5: "rnd (11095825168883831 / 4503599627370496) = Fin (1386978146110479 / 562949953421312)"
  using rnd_eval[where x="11095825168883831 / 4503599627370496" and e="1" and m="5547912584441916"]
  by (simp add: round_even_def Let_def overflow_bound_def floor_rat_numeral)

lemma scenario1_layout:
  "rawLayout (Fin (17 / 2)) (Fin 11) (Fin 17) (Fin 22) (Fin (3 / 8)) (Fin (1 / 8)) (Fin (3 / 8)) (Fin (1 / 2)) =
     \<lparr>layoutA = Some \<lparr>total_l = Fin 1, fitW = Fin 1, fitH = Fin 1, rotated = False,
           cutW = Fin (17 / 2), cutH = Fin 11\<rparr>,
       layoutB = Some \<lparr>total_l = Fin 2, fitW = Fin 1, fitH = Fin 2, rotated = True,
           cutW = Fin 11, cutH = Fin (17 / 2)\<rparr>,
       optimalKey = Some B, sheetW = Fin 17, sheetH = Fin 22, grip = Fin (1 / 2),
       lateralMargin = Fin (3 / 8), gutter = Fin (1 / 8), tail = Fin (3 / 8), error = None\<rparr>"
  by (simp add: rawLayout_def coerce_def or_else_def Math_max_def Let_def num_ge_def effectiveW_def effectiveH_def calculateFit_def EPSILON_def rnd_zero floor_rat_numeral
      s1_rnd_1 s1_rnd_2 s1_rnd_3 s1_rnd_4 s1_rnd_5 s1_rnd_exact)

lemma scenario1_turned_layout:
  "rawLayout (Fin 11) (Fin (17 / 2)) (Fin 17) (Fin 22) (Fin (3 / 8)) (Fin (1 / 8)) (Fin (3 / 8)) (Fin (1 / 2)) =
     \<lparr>layoutA = Some \<lparr>total_l = Fin 2, fitW = Fin 1, fitH = Fin 2, rotated = False,
           cutW = Fin 11, cutH = Fin (17 / 2)\<rparr>,
       layoutB = Some \<lparr>total_l = Fin 1, fitW = Fin 1, fitH = Fin 1, rotated = True,
           cutW = Fin (17 / 2), cutH = Fin 11\<rparr>,
       optimalKey = Some A, sheetW = Fin 17, sheetH = Fin 22, grip = Fin (1 / 2),
       lateralMargin = Fin (3 / 8), gutter = Fin (1 / 8), tail = Fin (3 / 8), error = None\<rparr>"
  by (simp add: rawLayout_def coerce_def or_else_def Math_max_def Let_def num_ge_def effectiveW_def effectiveH_def calculateFit_def EPSILON_def rnd_zero floor_rat_numeral
      s1_rnd_1 s1_rnd_2 s1_rnd_3 s1_rnd_4 s1_rnd_5 s1_rnd_exact)

lemma s3_rnd_exact:
  "rnd (1 / 2) = Fin (1 / 2)"
  "rnd (43 / 2) = Fin (43 / 2)"
  using
    rnd_exact[of "1" "-1"]
    rnd_exact[of "43" "-1"]
  by simp_all

lemmas scenario1_rnd = s1_rnd_1 s1_rnd_2 s1_rnd_3 s1_rnd_4 s1_rnd_5 s1_rnd_exact s3_rnd_exact

subsection \<open>Scenarios 2 and 3: the two errors\<close>

lemma scenario2_layout:
  "rawLayout (Fin 0) (Fin 11) (Fin 17) (Fin 22) (Fin (3 / 8)) (Fin (1 / 8)) (Fin (3 / 8)) (Fin (1 / 2)) =
     \<lparr>layoutA = None, layoutB = None, optimalKey = None, sheetW = Fin 17, sheetH = Fin 22,
       grip = Fin (1 / 2), lateralMargin = Fin (3 / 8), gutter = Fin (1 / 8), tail = Fin (3 / 8),
       error = Some InvalidDimensions\<rparr>"
  by (simp add: rawLayout_def coerce_def or_else_def Math_max_def Let_def num_ge_def effectiveW_def effectiveH_def calculateFit_def EPSILON_def rnd_zero floor_rat_numeral
      )

lemma e2_rnd_exact:
  "rnd (5404319552844595 / 4503599627370496) = Fin (5404319552844595 / 4503599627370496)"
  using
    rnd_exact[of "5404319552844595" "-52"]
  by simp_all

lemma e2_rnd_1: "rnd (3 / 5) = Fin (5404319552844595 / 9007199254740992)"
  using rnd_eval[where x="3 / 5" and e="-1" and m="5404319552844595"]
  by (simp add: round_even_def Let_def overflow_bound_def floor_rat_numeral)

lemma scenario3_layout:
  "rawLayout (Fin (17 / 2)) (Fin 11) (Fin 17) (Fin 1) (Fin (3 / 8)) (Fin (1 / 8)) (rnd (3 / 5)) (rnd (3 / 5)) =
     \<lparr>layoutA = None, layoutB = None, optimalKey = None, sheetW = Fin 17, sheetH = Fin 1,
       grip = Fin (5404319552844595 / 9007199254740992), lateralMargin = Fin (3 / 8), gutter = Fin (1 / 8), tail = Fin (5404319552844595 / 9007199254740992),
       error = Some MarginsExceedSheet\<rparr>"
  by (simp add: rawLayout_def coerce_def or_else_def Math_max_def Let_def num_ge_def effectiveW_def effectiveH_def calculateFit_def EPSILON_def rnd_zero floor_rat_numeral
      e2_rnd_1 e2_rnd_exact)

subsection \<open>Scenario 4: a tie\<close>

lemma t1_rnd_exact:
  "rnd 2 = Fin 2"
  "rnd 5 = Fin 5"
  "rnd 10 = Fin 10"
  "rnd 25 = Fin 25"
  using
    rnd_exact[of "2" "0"]
    rnd_exact[of "5" "0"]
    rnd_exact[of "10" "0"]
    rnd_exact[of "25" "0"]
  by simp_all

lemma t1_rnd_1: "rnd (22517998136852481 / 4503599627370496) = Fin 5"
  using rnd_eval[where x="22517998136852481 / 4503599627370496" and e="2" and m="5629499534213120"]
  by (simp add: round_even_def Let_def overflow_bound_def floor_rat_numeral)

lemma scenario4_layout:
  "rawLayout (Fin 2) (Fin 2) (Fin 10) (Fin 10) (Fin 0) (Fin 0) (Fin 0) (Fin 0) =
     \<lparr>layoutA = Some \<lparr>total_l = Fin 25, fitW = Fin 5, fitH = Fin 5, rotated = False,
           cutW = Fin 2, cutH = Fin 2\<rparr>,
       layoutB = Some \<lparr>total_l = Fin 25, fitW = Fin 5, fitH = Fin 5, rotated = True,
           cutW = Fin 2, cutH = Fin 2\<rparr>,
       optimalKey = Some A, sheetW = Fin 10, sheetH = Fin 10, grip = Fin 0,
       lateralMargin = Fin 0, gutter = Fin 0, tail = Fin 0, error = None\<rparr>"
  by (simp add: rawLayout_def coerce_def or_else_def Math_max_def Let_def num_ge_def effectiveW_def effectiveH_def calculateFit_def EPSILON_def rnd_zero floor_rat_numeral
      t1_rnd_1 t1_rnd_exact)

subsection \<open>An exact fit\<close>

lemma x1_rnd_exact:
  "rnd 1 = Fin 1"
  "rnd (4503599627370497 / 4503599627370496) = Fin (4503599627370497 / 4503599627370496)"
  "rnd 4 = Fin 4"
  "rnd 62 = Fin 62"
  "rnd (2181431069507585 / 35184372088832) = Fin (2181431069507585 / 35184372088832)"
  "rnd (2726788836884481 / 8796093022208) = Fin (2726788836884481 / 8796093022208)"
  using
    rnd_exact[of "1" "0"]
    rnd_exact[of "4503599627370497" "-52"]
    rnd_exact[of "4" "0"]
    rnd_exact[of "62" "0"]
    rnd_exact[of "2181431069507585" "-45"]
    rnd_exact[of "2726788836884481" "-43"]
  by simp_all

lemma x1_rnd_1: "rnd (22517998136852477 / 4503599627370496) = Fin (5629499534213119 / 1125899906842624)"
  using rnd_eval[where x="22517998136852477 / 4503599627370496" and e="2" and m="5629499534213119"]
  by (simp add: round_even_def Let_def overflow_bound_def floor_rat_numeral)

lemma x1_rnd_2: "rnd (10907155347537924 / 2181431069507585) = Fin (5629499534213119 / 1125899906842624)"
  using rnd_eval[where x="10907155347537924 / 2181431069507585" and e="2" and m="5629499534213119"]
  by (simp add: round_even_def Let_def overflow_bound_def floor_rat_numeral)

lemma x1_rnd_3: "rnd (10907155347537925 / 35184372088832) = Fin (2726788836884481 / 8796093022208)"
  using rnd_eval[where x="10907155347537925 / 35184372088832" and e="8" and m="5453577673768962"]
  by (simp add: round_even_def Let_def overflow_bound_def floor_rat_numeral)

lemma exact_fit_layout:
  "rawLayout (Fin 62) (Fin 62) (Fin (2726788836884481 / 8796093022208)) (Fin 62) (Fin 0) (Fin (1 / 35184372088832)) (Fin 0) (Fin 0) =
     \<lparr>layoutA = Some \<lparr>total_l = Fin 4, fitW = Fin 4, fitH = Fin 1, rotated = False,
           cutW = Fin 62, cutH = Fin 62\<rparr>,
       layoutB = Some \<lparr>total_l = Fin 4, fitW = Fin 4, fitH = Fin 1, rotated = True,
           cutW = Fin 62, cutH = Fin 62\<rparr>,
       optimalKey = Some A, sheetW = Fin (2726788836884481 / 8796093022208), sheetH = Fin 62, grip = Fin 0,
       lateralMargin = Fin 0, gutter = Fin (1 / 35184372088832), tail = Fin 0, error = None\<rparr>"
  by (simp add: rawLayout_def coerce_def or_else_def Math_max_def Let_def num_ge_def effectiveW_def effectiveH_def calculateFit_def EPSILON_def rnd_zero floor_rat_numeral
      x1_rnd_1 x1_rnd_2 x1_rnd_3 x1_rnd_exact)

lemma exact_fit_count:
  "calculateFit (Fin (2726788836884481 / 8796093022208)) (Fin 62) (Fin (1 / 35184372088832)) = Fin 4"
  by (simp add: calculateFit_def EPSILON_def rnd_zero floor_rat_numeral
      x1_rnd_1 x1_rnd_2 x1_rnd_3 x1_rnd_exact)

lemma x3_rnd_exact:
  "rnd (1 / 35184372088832) = Fin (1 / 35184372088832)"
  "rnd (5629499534213119 / 1125899906842624) = Fin (5629499534213119 / 1125899906842624)"
  using
    rnd_exact[of "1" "-45"]
    rnd_exact[of "5629499534213119" "-50"]
  by simp_all

lemma x3_rnd_1: "rnd (2842170943040401 / 100000000000000000000000000000) = Fin (1 / 35184372088832)"
  using rnd_eval[where x="2842170943040401 / 100000000000000000000000000000" and e="-45" and m="4503599627370496"]
  by (simp add: round_even_def Let_def overflow_bound_def floor_rat_numeral)

lemma x3_rnd_2: "rnd (3100000000000001 / 10000000000000) = Fin (2726788836884481 / 8796093022208)"
  using rnd_eval[where x="3100000000000001 / 10000000000000" and e="8" and m="5453577673768962"]
  by (simp add: round_even_def Let_def overflow_bound_def floor_rat_numeral)

lemma x4_rnd_exact:
  "rnd (9007199254740991 / 4503599627370496) = Fin (9007199254740991 / 4503599627370496)"
  using
    rnd_exact[of "9007199254740991" "-52"]
  by simp_all

lemma x4_rnd_1: "rnd (1 / 5) = Fin (3602879701896397 / 18014398509481984)"
  using rnd_eval[where x="1 / 5" and e="-3" and m="7205759403792794"]
  by (simp add: round_even_def Let_def overflow_bound_def floor_rat_numeral)

lemma x4_rnd_2: "rnd (2 / 5) = Fin (3602879701896397 / 9007199254740992)"
  using rnd_eval[where x="2 / 5" and e="-2" and m="7205759403792794"]
  by (simp add: round_even_def Let_def overflow_bound_def floor_rat_numeral)

lemma x4_rnd_3: "rnd (10808639105689191 / 18014398509481984) = Fin (1351079888211149 / 2251799813685248)"
  using rnd_eval[where x="10808639105689191 / 18014398509481984" and e="-1" and m="5404319552844596"]
  by (simp add: round_even_def Let_def overflow_bound_def floor_rat_numeral)

lemma x4_rnd_4: "rnd (21617278211378381 / 18014398509481984) = Fin (5404319552844595 / 4503599627370496)"
  using rnd_eval[where x="21617278211378381 / 18014398509481984" and e="0" and m="5404319552844595"]
  by (simp add: round_even_def Let_def overflow_bound_def floor_rat_numeral)

lemma x4_rnd_5: "rnd (5404319552844595 / 2702159776422298) = Fin (4503599627370495 / 2251799813685248)"
  using rnd_eval[where x="5404319552844595 / 2702159776422298" and e="0" and m="9007199254740990"]
  by (simp add: round_even_def Let_def overflow_bound_def floor_rat_numeral)

lemma decimal_fit_count:
  "calculateFit (Fin 1) (rnd (2 / 5)) (rnd (1 / 5)) = Fin 1"
  by (simp add: calculateFit_def EPSILON_def rnd_zero floor_rat_numeral
      x4_rnd_1 x4_rnd_2 x4_rnd_3 x4_rnd_4 x4_rnd_5 x4_rnd_exact)

lemmas exact_fit_rnd = x1_rnd_1 x1_rnd_2 x1_rnd_3 x1_rnd_exact x3_rnd_1 x3_rnd_2 x3_rnd_exact x4_rnd_1 x4_rnd_2 x4_rnd_3 x4_rnd_4 x4_rnd_5 x4_rnd_exact

subsection \<open>Gutters\<close>

lemma g1_rnd_exact:
  "rnd (1 / 2) = Fin (1 / 2)"
  "rnd (2251799813685249 / 4503599627370496) = Fin (2251799813685249 / 4503599627370496)"
  "rnd 1 = Fin 1"
  "rnd 2 = Fin 2"
  using
    rnd_exact[of "1" "-1"]
    rnd_exact[of "2251799813685249" "-52"]
    rnd_exact[of "1" "0"]
    rnd_exact[of "2" "0"]
  by simp_all

lemma long_piece_layout:
  "rawLayout (Fin 2) (Fin 2) (Fin 1) (Fin 1) (Fin 0) (Fin 0) (Fin 0) (Fin 0) =
     \<lparr>layoutA = Some \<lparr>total_l = Fin 0, fitW = Fin 0, fitH = Fin 0, rotated = False,
           cutW = Fin 2, cutH = Fin 2\<rparr>,
       layoutB = Some \<lparr>total_l = Fin 0, fitW = Fin 0, fitH = Fin 0, rotated = True,
           cutW = Fin 2, cutH = Fin 2\<rparr>,
       optimalKey = Some A, sheetW = Fin 1, sheetH = Fin 1, grip = Fin 0,
       lateralMargin = Fin 0, gutter = Fin 0, tail = Fin 0, error = None\<rparr>"
  by (simp add: rawLayout_def coerce_def or_else_def Math_max_def Let_def num_ge_def effectiveW_def effectiveH_def calculateFit_def EPSILON_def rnd_zero floor_rat_numeral
      g1_rnd_exact)

lemma g2_rnd_exact:
  "rnd 9007199254740994 = Fin 9007199254740994"
  using
    rnd_exact[of "4503599627370497" "1"]
  by simp_all

lemma g2_rnd_1: "rnd (4503599627370496 / 4503599627370497) = Fin (4503599627370495 / 4503599627370496)"
  using rnd_eval[where x="4503599627370496 / 4503599627370497" and e="-1" and m="9007199254740990"]
  by (simp add: round_even_def Let_def overflow_bound_def floor_rat_numeral)

lemma g2_rnd_2: "rnd 9007199254740993 = Fin 9007199254740992"
  using rnd_eval[where x="9007199254740993" and e="53" and m="4503599627370496"]
  by (simp add: round_even_def Let_def overflow_bound_def floor_rat_numeral)

lemma long_piece_wide_gutter_layout:
  "rawLayout (Fin 2) (Fin 2) (Fin 1) (Fin 1) (Fin 0) (Fin 9007199254740992) (Fin 0) (Fin 0) =
     \<lparr>layoutA = Some \<lparr>total_l = Fin 1, fitW = Fin 1, fitH = Fin 1, rotated = False,
           cutW = Fin 2, cutH = Fin 2\<rparr>,
       layoutB = Some \<lparr>total_l = Fin 1, fitW = Fin 1, fitH = Fin 1, rotated = True,
           cutW = Fin 2, cutH = Fin 2\<rparr>,
       optimalKey = Some A, sheetW = Fin 1, sheetH = Fin 1, grip = Fin 0,
       lateralMargin = Fin 0, gutter = Fin 9007199254740992, tail = Fin 0, error = None\<rparr>"
  by (simp add: rawLayout_def coerce_def or_else_def Math_max_def Let_def num_ge_def effectiveW_def effectiveH_def calculateFit_def EPSILON_def rnd_zero floor_rat_numeral
      g1_rnd_exact g2_rnd_1 g2_rnd_2 g2_rnd_exact)

lemma g3_rnd_exact:
  "rnd (5629499534213121 / 1125899906842624) = Fin (5629499534213121 / 1125899906842624)"
  "rnd 16 = Fin 16"
  using
    rnd_exact[of "5629499534213121" "-50"]
    rnd_exact[of "16" "0"]
  by simp_all

lemma g3_rnd_1: "rnd (9007199254740995 / 9007199254740992) = Fin (2251799813685249 / 2251799813685248)"
  using rnd_eval[where x="9007199254740995 / 9007199254740992" and e="0" and m="4503599627370498"]
  by (simp add: round_even_def Let_def overflow_bound_def floor_rat_numeral)

lemma g3_rnd_2: "rnd (3752999689475414 / 750599937895083) = Fin (5629499534213119 / 1125899906842624)"
  using rnd_eval[where x="3752999689475414 / 750599937895083" and e="2" and m="5629499534213119"]
  by (simp add: round_even_def Let_def overflow_bound_def floor_rat_numeral)

lemma g3_rnd_3: "rnd (22517998136852477 / 4503599627370496) = Fin (5629499534213119 / 1125899906842624)"
  using rnd_eval[where x="22517998136852477 / 4503599627370496" and e="2" and m="5629499534213119"]
  by (simp add: round_even_def Let_def overflow_bound_def floor_rat_numeral)

lemma g3_rnd_4: "rnd (45035996273704971 / 9007199254740992) = Fin (5629499534213121 / 1125899906842624)"
  using rnd_eval[where x="45035996273704971 / 9007199254740992" and e="2" and m="5629499534213121"]
  by (simp add: round_even_def Let_def overflow_bound_def floor_rat_numeral)

lemma rounded_sums_layout:
  "rawLayout (Fin 1) (Fin 1) (Fin (5629499534213121 / 1125899906842624)) (Fin (5629499534213121 / 1125899906842624)) (Fin 0) (Fin (3 / 9007199254740992)) (Fin 0) (Fin 0) =
     \<lparr>layoutA = Some \<lparr>total_l = Fin 16, fitW = Fin 4, fitH = Fin 4, rotated = False,
           cutW = Fin 1, cutH = Fin 1\<rparr>,
       layoutB = Some \<lparr>total_l = Fin 16, fitW = Fin 4, fitH = Fin 4, rotated = True,
           cutW = Fin 1, cutH = Fin 1\<rparr>,
       optimalKey = Some A, sheetW = Fin (5629499534213121 / 1125899906842624), sheetH = Fin (5629499534213121 / 1125899906842624), grip = Fin 0,
       lateralMargin = Fin 0, gutter = Fin (3 / 9007199254740992), tail = Fin 0, error = None\<rparr>"
  by (simp add: rawLayout_def coerce_def or_else_def Math_max_def Let_def num_ge_def effectiveW_def effectiveH_def calculateFit_def EPSILON_def rnd_zero floor_rat_numeral
      g3_rnd_1 g3_rnd_2 g3_rnd_3 g3_rnd_4 g3_rnd_exact)

lemma g4_rnd_exact:
  "rnd (2251799813685249 / 2251799813685248) = Fin (2251799813685249 / 2251799813685248)"
  "rnd 25 = Fin 25"
  using
    rnd_exact[of "2251799813685249" "-51"]
    rnd_exact[of "25" "0"]
  by simp_all

lemma g4_rnd_1: "rnd (11258999068426244 / 2251799813685249) = Fin 5"
  using rnd_eval[where x="11258999068426244 / 2251799813685249" and e="2" and m="5629499534213120"]
  by (simp add: round_even_def Let_def overflow_bound_def floor_rat_numeral)

lemma g4_rnd_2: "rnd (22517998136852481 / 4503599627370496) = Fin 5"
  using rnd_eval[where x="22517998136852481 / 4503599627370496" and e="2" and m="5629499534213120"]
  by (simp add: round_even_def Let_def overflow_bound_def floor_rat_numeral)

lemma g4_rnd_3: "rnd (11258999068426243 / 2251799813685248) = Fin (2814749767106561 / 562949953421312)"
  using rnd_eval[where x="11258999068426243 / 2251799813685248" and e="2" and m="5629499534213122"]
  by (simp add: round_even_def Let_def overflow_bound_def floor_rat_numeral)

lemma rounded_sums_wider_gutter_layout:
  "rawLayout (Fin 1) (Fin 1) (Fin (5629499534213121 / 1125899906842624)) (Fin (5629499534213121 / 1125899906842624)) (Fin 0) (Fin (1 / 2251799813685248)) (Fin 0) (Fin 0) =
     \<lparr>layoutA = Some \<lparr>total_l = Fin 25, fitW = Fin 5, fitH = Fin 5, rotated = False,
           cutW = Fin 1, cutH = Fin 1\<rparr>,
       layoutB = Some \<lparr>total_l = Fin 25, fitW = Fin 5, fitH = Fin 5, rotated = True,
           cutW = Fin 1, cutH = Fin 1\<rparr>,
       optimalKey = Some A, sheetW = Fin (5629499534213121 / 1125899906842624), sheetH = Fin (5629499534213121 / 1125899906842624), grip = Fin 0,
       lateralMargin = Fin 0, gutter = Fin (1 / 2251799813685248), tail = Fin 0, error = None\<rparr>"
  by (simp add: rawLayout_def coerce_def or_else_def Math_max_def Let_def num_ge_def effectiveW_def effectiveH_def calculateFit_def EPSILON_def rnd_zero floor_rat_numeral
      g3_rnd_exact g4_rnd_1 g4_rnd_2 g4_rnd_3 g4_rnd_exact)

lemma g5_rnd_exact:
  "rnd 3 = Fin 3"
  "rnd 4 = Fin 4"
  "rnd 5 = Fin 5"
  "rnd 10 = Fin 10"
  "rnd 12 = Fin 12"
  "rnd 9007199254740992 = Fin 9007199254740992"
  using
    rnd_exact[of "3" "0"]
    rnd_exact[of "4" "0"]
    rnd_exact[of "5" "0"]
    rnd_exact[of "10" "0"]
    rnd_exact[of "12" "0"]
    rnd_exact[of "4503599627370496" "1"]
  by simp_all

lemma g5_rnd_1: "rnd (13510798882111489 / 4503599627370496) = Fin 3"
  using rnd_eval[where x="13510798882111489 / 4503599627370496" and e="1" and m="6755399441055744"]
  by (simp add: round_even_def Let_def overflow_bound_def floor_rat_numeral)

lemmas gutter_rnd = g1_rnd_exact g2_rnd_1 g2_rnd_2 g2_rnd_exact g3_rnd_1 g3_rnd_2 g3_rnd_3 g3_rnd_4 g3_rnd_exact g4_rnd_1 g4_rnd_2 g4_rnd_3 g4_rnd_exact g5_rnd_1 g5_rnd_exact

subsection \<open>Clearances\<close>

lemma c1_rnd_exact:
  "rnd (2237726064849715 / 140737488355328) = Fin (2237726064849715 / 140737488355328)"
  "rnd 17 = Fin 17"
  "rnd (9007199254740991 / 281474976710656) = Fin (9007199254740991 / 281474976710656)"
  "rnd (2406611050876109 / 70368744177664) = Fin (2406611050876109 / 70368744177664)"
  "rnd 1054 = Fin 1054"
  using
    rnd_exact[of "2237726064849715" "-47"]
    rnd_exact[of "17" "0"]
    rnd_exact[of "9007199254740991" "-48"]
    rnd_exact[of "2406611050876109" "-46"]
    rnd_exact[of "1054" "0"]
  by simp_all

lemma c1_rnd_1: "rnd (1 / 10) = Fin (3602879701896397 / 36028797018963968)"
  using rnd_eval[where x="1 / 10" and e="-4" and m="7205759403792794"]
  by (simp add: round_even_def Let_def overflow_bound_def floor_rat_numeral)

lemma c1_rnd_2: "rnd (2 / 5) = Fin (3602879701896397 / 9007199254740992)"
  using rnd_eval[where x="2 / 5" and e="-2" and m="7205759403792794"]
  by (simp add: round_even_def Let_def overflow_bound_def floor_rat_numeral)

lemma c1_rnd_3: "rnd (18014398509481985 / 36028797018963968) = Fin (1 / 2)"
  using rnd_eval[where x="18014398509481985 / 36028797018963968" and e="-1" and m="4503599627370496"]
  by (simp add: round_even_def Let_def overflow_bound_def floor_rat_numeral)

lemma c1_rnd_4: "rnd (3 / 5) = Fin (5404319552844595 / 9007199254740992)"
  using rnd_eval[where x="3 / 5" and e="-1" and m="5404319552844595"]
  by (simp add: round_even_def Let_def overflow_bound_def floor_rat_numeral)

lemma c1_rnd_5: "rnd (9907919180215091 / 9007199254740992) = Fin (2476979795053773 / 2251799813685248)"
  using rnd_eval[where x="9907919180215091 / 9007199254740992" and e="0" and m="4953959590107546"]
  by (simp add: round_even_def Let_def overflow_bound_def floor_rat_numeral)

lemma c1_rnd_6: "rnd (576460752303423437 / 36028797018963968) = Fin (9007199254740991 / 562949953421312)"
  using rnd_eval[where x="576460752303423437 / 36028797018963968" and e="3" and m="9007199254740991"]
  by (simp add: round_even_def Let_def overflow_bound_def floor_rat_numeral)

lemma c1_rnd_7: "rnd (147718067777752269 / 9007199254740992) = Fin (2308094809027379 / 140737488355328)"
  using rnd_eval[where x="147718067777752269 / 9007199254740992" and e="4" and m="4616189618054758"]
  by (simp add: round_even_def Let_def overflow_bound_def floor_rat_numeral)

lemma c1_rnd_8: "rnd (616092429024283853 / 36028797018963968) = Fin (2406611050876109 / 140737488355328)"
  using rnd_eval[where x="616092429024283853 / 36028797018963968" and e="4" and m="4813222101752218"]
  by (simp add: round_even_def Let_def overflow_bound_def floor_rat_numeral)

lemma c1_rnd_9: "rnd (144115188075855857 / 4503599627370496) = Fin (9007199254740991 / 281474976710656)"
  using rnd_eval[where x="144115188075855857 / 4503599627370496" and e="4" and m="9007199254740991"]
  by (simp add: round_even_def Let_def overflow_bound_def floor_rat_numeral)

lemma c1_rnd_10: "rnd (154023107256070977 / 4503599627370496) = Fin (2406611050876109 / 70368744177664)"
  using rnd_eval[where x="154023107256070977 / 4503599627370496" and e="5" and m="4813222101752218"]
  by (simp add: round_even_def Let_def overflow_bound_def floor_rat_numeral)

lemma clearances_layout:
  "rawLayout (rnd (2 / 5)) (rnd (2 / 5)) (Fin 17) (Fin 17) (Fin 0) (rnd (1 / 10)) (rnd (3 / 5)) (Fin (1 / 2)) =
     \<lparr>layoutA = Some \<lparr>total_l = Fin 1054, fitW = Fin 34, fitH = Fin 31, rotated = False,
           cutW = Fin (3602879701896397 / 9007199254740992), cutH = Fin (3602879701896397 / 9007199254740992)\<rparr>,
       layoutB = Some \<lparr>total_l = Fin 1054, fitW = Fin 34, fitH = Fin 31, rotated = True,
           cutW = Fin (3602879701896397 / 9007199254740992), cutH = Fin (3602879701896397 / 9007199254740992)\<rparr>,
       optimalKey = Some A, sheetW = Fin 17, sheetH = Fin 17, grip = Fin (1 / 2),
       lateralMargin = Fin 0, gutter = Fin (3602879701896397 / 36028797018963968), tail = Fin (5404319552844595 / 9007199254740992), error = None\<rparr>"
  by (simp add: rawLayout_def coerce_def or_else_def Math_max_def Let_def num_ge_def effectiveW_def effectiveH_def calculateFit_def EPSILON_def rnd_zero floor_rat_numeral
      c1_rnd_1 c1_rnd_10 c1_rnd_2 c1_rnd_3 c1_rnd_4 c1_rnd_5 c1_rnd_6 c1_rnd_7 c1_rnd_8 c1_rnd_9 c1_rnd_exact)

lemma c2_rnd_exact:
  "rnd (33 / 2) = Fin (33 / 2)"
  "rnd 32 = Fin 32"
  "rnd 1088 = Fin 1088"
  using
    rnd_exact[of "33" "-1"]
    rnd_exact[of "32" "0"]
    rnd_exact[of "1088" "0"]
  by simp_all

lemma c2_rnd_1: "rnd (143214468150381773 / 9007199254740992) = Fin (8950904259398861 / 562949953421312)"
  using rnd_eval[where x="143214468150381773 / 9007199254740992" and e="3" and m="8950904259398861"]
  by (simp add: round_even_def Let_def overflow_bound_def floor_rat_numeral)

lemma c2_rnd_2: "rnd (576460752303423501 / 36028797018963968) = Fin 16"
  using rnd_eval[where x="576460752303423501 / 36028797018963968" and e="4" and m="4503599627370496"]
  by (simp add: round_even_def Let_def overflow_bound_def floor_rat_numeral)

lemma c2_rnd_3: "rnd (144115188075855873 / 4503599627370496) = Fin 32"
  using rnd_eval[where x="144115188075855873 / 4503599627370496" and e="5" and m="4503599627370496"]
  by (simp add: round_even_def Let_def overflow_bound_def floor_rat_numeral)

lemma clearances_swapped_layout:
  "rawLayout (rnd (2 / 5)) (rnd (2 / 5)) (Fin 17) (Fin 17) (Fin 0) (rnd (1 / 10)) (Fin (1 / 2)) (rnd (3 / 5)) =
     \<lparr>layoutA = Some \<lparr>total_l = Fin 1088, fitW = Fin 34, fitH = Fin 32, rotated = False,
           cutW = Fin (3602879701896397 / 9007199254740992), cutH = Fin (3602879701896397 / 9007199254740992)\<rparr>,
       layoutB = Some \<lparr>total_l = Fin 1088, fitW = Fin 34, fitH = Fin 32, rotated = True,
           cutW = Fin (3602879701896397 / 9007199254740992), cutH = Fin (3602879701896397 / 9007199254740992)\<rparr>,
       optimalKey = Some A, sheetW = Fin 17, sheetH = Fin 17, grip = Fin (5404319552844595 / 9007199254740992),
       lateralMargin = Fin 0, gutter = Fin (3602879701896397 / 36028797018963968), tail = Fin (1 / 2), error = None\<rparr>"
  by (simp add: rawLayout_def coerce_def or_else_def Math_max_def Let_def num_ge_def effectiveW_def effectiveH_def calculateFit_def EPSILON_def rnd_zero floor_rat_numeral
      c1_rnd_1 c1_rnd_10 c1_rnd_2 c1_rnd_3 c1_rnd_4 c1_rnd_5 c1_rnd_8 c1_rnd_exact c2_rnd_1 c2_rnd_2 c2_rnd_3 c2_rnd_exact)

lemmas clearances_rnd = c1_rnd_1 c1_rnd_10 c1_rnd_2 c1_rnd_3 c1_rnd_4 c1_rnd_5 c1_rnd_6 c1_rnd_7 c1_rnd_8 c1_rnd_9 c1_rnd_exact c2_rnd_1 c2_rnd_2 c2_rnd_3 c2_rnd_exact

section \<open>The claims\<close>

text \<open>
  In the statements below \<open>cw ch sw sh lm gu ta gr\<close> are the parsed texts of
  \<^verbatim>\<open>cutWidth\<close>, \<^verbatim>\<open>cutHeight\<close>, \<^verbatim>\<open>sheetWidth\<close>, \<^verbatim>\<open>sheetHeight\<close>,
  \<^verbatim>\<open>lateralMargin\<close>, \<^verbatim>\<open>gutter\<close>, \<^verbatim>\<open>tail\<close> and \<^verbatim>\<open>grip\<close>. The specification's
  leading clearance is the source's \<^verbatim>\<open>tail\<close> (\<^verbatim>\<open>G_calc\<close>, the top margin), its
  trailing clearance the source's \<^verbatim>\<open>grip\<close> (\<^verbatim>\<open>T_calc\<close>); candidate \<open>A\<close> is the normal
  one, \<open>B\<close> the rotated one; \<open>fitW\<close> and \<open>fitH\<close> are a candidate's columns and rows. A
  request is valid when its result carries no error.
\<close>

subsection \<open>C1: the fit formula\<close>

text \<open>
  Claim C1. The per-axis fit is \<open>0\<close> when \<open>P + G \<le> 0\<close> and
  \<open>floor((L + G) / (P + G) + \<epsilon>)\<close> otherwise, with \<open>\<epsilon>\<close> the fixed positive constant
  \<^verbatim>\<open>Number.EPSILON\<close>; the columns and rows of both candidates of a valid request are
  this formula at the usable width, respectively height, and the piece side laid along
  it. The sums, the quotient and the comparison are those of binary64 arithmetic.
\<close>

theorem fit_formula_per_axis:
  fixes L P G cw ch sw sh lm gu ta gr :: number
  defines "r \<equiv> rawLayout cw ch sw sh lm gu ta gr"
    and "W \<equiv> effectiveW (coerce sw) (coerce lm)"
    and "H \<equiv> effectiveH (coerce sh) (coerce ta) (coerce gr)"
  shows "num_lt (Fin 0) EPSILON
    \<and> calculateFit L P G = spec_fit EPSILON L P G
    \<and> (error r = None \<longrightarrow>
         (\<exists>a b. layoutA r = Some a \<and> layoutB r = Some b
            \<and> fitW a = spec_fit EPSILON W (coerce cw) (coerce gu)
            \<and> fitH a = spec_fit EPSILON H (coerce ch) (coerce gu)
            \<and> fitW b = spec_fit EPSILON W (coerce ch) (coerce gu)
            \<and> fitH b = spec_fit EPSILON H (coerce cw) (coerce gu)))"
proof -
  have "num_lt (Fin 0) EPSILON" by (simp add: num_lt_def EPSILON_def)
  moreover have "calculateFit L P G = spec_fit EPSILON L P G" by (rule calculateFit_spec)
  moreover have "error r = None \<longrightarrow>
         (\<exists>a b. layoutA r = Some a \<and> layoutB r = Some b
            \<and> fitW a = spec_fit EPSILON W (coerce cw) (coerce gu)
            \<and> fitH a = spec_fit EPSILON H (coerce ch) (coerce gu)
            \<and> fitW b = spec_fit EPSILON W (coerce ch) (coerce gu)
            \<and> fitH b = spec_fit EPSILON H (coerce cw) (coerce gu))"
  proof
    assume "error r = None"
    then have "error (rawLayout cw ch sw sh lm gu ta gr) = None" by (simp add: r_def)
    from rawLayout_valid[OF this]
    show "\<exists>a b. layoutA r = Some a \<and> layoutB r = Some b
            \<and> fitW a = spec_fit EPSILON W (coerce cw) (coerce gu)
            \<and> fitH a = spec_fit EPSILON H (coerce ch) (coerce gu)
            \<and> fitW b = spec_fit EPSILON W (coerce ch) (coerce gu)
            \<and> fitH b = spec_fit EPSILON H (coerce cw) (coerce gu)"
      by (simp add: calculateFit_spec r_def W_def H_def)
  qed
  ultimately show ?thesis by simp
qed

theorem fit_formula_per_axis_witness:
  "(let r = rawLayout (Fin (17 / 2)) (Fin 11) (Fin 17) (Fin 22) (Fin (3 / 8)) (Fin (1 / 8))
                      (Fin (3 / 8)) (Fin (1 / 2));
        W = effectiveW (Fin 17) (Fin (3 / 8));
        H = effectiveH (Fin 22) (Fin (3 / 8)) (Fin (1 / 2))
    in error r = None
       \<and> map_option fitW (layoutA r) = Some (spec_fit EPSILON W (Fin (17 / 2)) (Fin (1 / 8)))
       \<and> map_option fitH (layoutA r) = Some (spec_fit EPSILON H (Fin 11) (Fin (1 / 8)))
       \<and> map_option fitW (layoutB r) = Some (spec_fit EPSILON W (Fin 11) (Fin (1 / 8)))
       \<and> map_option fitH (layoutB r) = Some (spec_fit EPSILON H (Fin (17 / 2)) (Fin (1 / 8))))"
proof -
  have e: "error (rawLayout (Fin (17 / 2)) (Fin 11) (Fin 17) (Fin 22) (Fin (3 / 8))
                    (Fin (1 / 8)) (Fin (3 / 8)) (Fin (1 / 2))) = None"
    by (simp add: scenario1_layout)
  show ?thesis
    using e fit_formula_per_axis[where cw="Fin (17 / 2)" and ch="Fin 11" and sw="Fin 17"
        and sh="Fin 22" and lm="Fin (3 / 8)" and gu="Fin (1 / 8)" and ta="Fin (3 / 8)"
        and gr="Fin (1 / 2)" and L="Fin 1" and P="Fin 1" and G="Fin 1"]
    by (auto simp: Let_def coerce_Fin)
qed

subsection \<open>C2: validation\<close>

text \<open>
  Claim C2. On the clamped inputs, the result carries the error InvalidDimensions exactly
  when one of piece width, piece height, sheet width, sheet height is \<open>\<le> 0\<close>; it carries
  MarginsExceedSheet exactly when all four are positive and
  \<open>leading + trailing \<ge> sheetHeight\<close> or \<open>2 * lateralMargin \<ge> sheetWidth\<close>; a result
  with an error has no candidates and no optimal key, and echoes the clamped sheet,
  margin, gutter and clearance values.
\<close>

theorem validation_gating:
  fixes cw ch sw sh lm gu ta gr :: number
  defines "r \<equiv> rawLayout cw ch sw sh lm gu ta gr"
    and "CW \<equiv> coerce cw" and "CH \<equiv> coerce ch" and "SW \<equiv> coerce sw" and "SH \<equiv> coerce sh"
    and "LM \<equiv> coerce lm" and "GT \<equiv> coerce gu"
    and "leading \<equiv> coerce ta" and "trailing \<equiv> coerce gr"
  shows "(error r = Some InvalidDimensions \<longleftrightarrow>
            num_le CW (Fin 0) \<or> num_le CH (Fin 0) \<or> num_le SW (Fin 0) \<or> num_le SH (Fin 0))
    \<and> (error r = Some MarginsExceedSheet \<longleftrightarrow>
            num_lt (Fin 0) CW \<and> num_lt (Fin 0) CH \<and> num_lt (Fin 0) SW \<and> num_lt (Fin 0) SH
            \<and> (num_ge (num_add leading trailing) SH \<or> num_ge (num_mul (Fin 2) LM) SW))
    \<and> (error r \<noteq> None \<longrightarrow>
            layoutA r = None \<and> layoutB r = None \<and> optimalKey r = None
            \<and> sheetW r = SW \<and> sheetH r = SH \<and> lateralMargin r = LM \<and> gutter r = GT
            \<and> tail r = leading \<and> grip r = trailing)"
  unfolding r_def CW_def CH_def SW_def SH_def LM_def GT_def leading_def trailing_def
  by (simp add: rawLayout_def Let_def coerce_pos_iff)

text \<open>
  Scenario 2 of the specification (a piece of width 0) and scenario 3 (sheet height 1
  with both clearances 0.6).
\<close>

theorem validation_gating_witness:
  "(let r = rawLayout (Fin 0) (Fin 11) (Fin 17) (Fin 22) (Fin (3 / 8)) (Fin (1 / 8))
                      (Fin (3 / 8)) (Fin (1 / 2));
        r' = rawLayout (Fin (17 / 2)) (Fin 11) (Fin 17) (Fin 1) (Fin (3 / 8)) (Fin (1 / 8))
                      (rnd (3 / 5)) (rnd (3 / 5))
    in error r = Some InvalidDimensions \<and> error r' = Some MarginsExceedSheet
       \<and> layoutA r = None \<and> layoutB r = None \<and> optimalKey r = None
       \<and> layoutA r' = None \<and> layoutB r' = None \<and> optimalKey r' = None
       \<and> sheetW r = Fin 17 \<and> sheetH r = Fin 22 \<and> sheetW r' = Fin 17 \<and> sheetH r' = Fin 1)"
proof -
  have e: "error (rawLayout (Fin 0) (Fin 11) (Fin 17) (Fin 22) (Fin (3 / 8)) (Fin (1 / 8))
                      (Fin (3 / 8)) (Fin (1 / 2))) = Some InvalidDimensions"
    "error (rawLayout (Fin (17 / 2)) (Fin 11) (Fin 17) (Fin 1) (Fin (3 / 8)) (Fin (1 / 8))
                      (rnd (3 / 5)) (rnd (3 / 5))) = Some MarginsExceedSheet"
    by (simp_all add: scenario2_layout scenario3_layout)
  show ?thesis
    using e
      validation_gating[where cw="Fin 0" and ch="Fin 11" and sw="Fin 17" and sh="Fin 22"
        and lm="Fin (3 / 8)" and gu="Fin (1 / 8)" and ta="Fin (3 / 8)" and gr="Fin (1 / 2)"]
      validation_gating[where cw="Fin (17 / 2)" and ch="Fin 11" and sw="Fin 17" and sh="Fin 1"
        and lm="Fin (3 / 8)" and gu="Fin (1 / 8)" and ta="rnd (3 / 5)" and gr="rnd (3 / 5)"]
    by (simp add: Let_def coerce_Fin)
qed

subsection \<open>C3: the optimal candidate\<close>

text \<open>
  Claim C3. A valid request has both candidates in its result, the normal one and the
  rotated one, and the optimal key names the normal candidate exactly when
  \<open>Normal.total >= Rotated.total\<close>, the rotated one otherwise; in particular equal totals
  select the normal candidate. The comparisons are JavaScript's \<^verbatim>\<open>>=\<close> and \<^verbatim>\<open>==\<close>.
\<close>

theorem optimal_selection:
  fixes cw ch sw sh lm gu ta gr :: number
  defines "r \<equiv> rawLayout cw ch sw sh lm gu ta gr"
  assumes "error r = None"
  shows "\<exists>a b. layoutA r = Some a \<and> layoutB r = Some b
           \<and> rotated a = False \<and> rotated b = True
           \<and> optimalKey r = Some (if num_ge (total_l a) (total_l b) then A else B)
           \<and> (num_eq (total_l a) (total_l b) \<longrightarrow> optimalKey r = Some A)"
proof -
  have e: "error (rawLayout cw ch sw sh lm gu ta gr) = None" using assms by simp
  have t: "num_eq x y \<Longrightarrow> num_ge x y" for x y
    by (cases x; cases y) (simp_all add: num_eq_def num_ge_def)
  show ?thesis
    unfolding r_def by (subst (1 2 3 4) rawLayout_valid[OF e]) (simp add: t)
qed

text \<open>Scenario 4 of the specification: a square piece, hence a tie.\<close>

theorem optimal_selection_witness:
  "(let r = rawLayout (Fin 2) (Fin 2) (Fin 10) (Fin 10) (Fin 0) (Fin 0) (Fin 0) (Fin 0)
    in error r = None
       \<and> map_option total_l (layoutA r) = Some (Fin 25)
       \<and> map_option total_l (layoutB r) = Some (Fin 25)
       \<and> num_eq (Fin 25) (Fin 25)
       \<and> optimalKey r = Some A)"
proof -
  have e: "error (rawLayout (Fin 2) (Fin 2) (Fin 10) (Fin 10) (Fin 0) (Fin 0) (Fin 0) (Fin 0))
            = None"
    and t: "map_option total_l
              (layoutA (rawLayout (Fin 2) (Fin 2) (Fin 10) (Fin 10) (Fin 0) (Fin 0) (Fin 0) (Fin 0)))
            = Some (Fin 25)"
      "map_option total_l
              (layoutB (rawLayout (Fin 2) (Fin 2) (Fin 10) (Fin 10) (Fin 0) (Fin 0) (Fin 0) (Fin 0)))
            = Some (Fin 25)"
    by (simp_all add: scenario4_layout)
  have q: "num_eq (Fin 25) (Fin 25)" by (simp add: num_eq_def)
  from optimal_selection[OF e] obtain a b where
    ab: "layoutA (rawLayout (Fin 2) (Fin 2) (Fin 10) (Fin 10) (Fin 0) (Fin 0) (Fin 0) (Fin 0))
           = Some a"
      "layoutB (rawLayout (Fin 2) (Fin 2) (Fin 10) (Fin 10) (Fin 0) (Fin 0) (Fin 0) (Fin 0))
           = Some b"
      "num_eq (total_l a) (total_l b) \<longrightarrow>
         optimalKey (rawLayout (Fin 2) (Fin 2) (Fin 10) (Fin 10) (Fin 0) (Fin 0) (Fin 0) (Fin 0))
           = Some A"
    by blast
  have "total_l a = Fin 25" "total_l b = Fin 25" using ab(1,2) t by simp_all
  then have "optimalKey (rawLayout (Fin 2) (Fin 2) (Fin 10) (Fin 10) (Fin 0) (Fin 0) (Fin 0) (Fin 0))
               = Some A"
    using ab(3) q by simp
  then show ?thesis using e t q by (simp add: Let_def)
qed

subsection \<open>C4: scenario 1\<close>

text \<open>
  Claim C4. Piece 8.5 by 11, sheet 17 by 22, lateral margin 0.375, gutter 0.125, leading
  clearance 0.375, trailing clearance 0.5: the usable width is 16.25 and the usable
  height 21.125; the normal candidate has 1 column, 1 row, total 1; the rotated one
  1 column, 2 rows, total 2; the rotated candidate is optimal.
\<close>

theorem scenario1:
  "effectiveW (coerce (Fin 17)) (coerce (Fin (3 / 8))) = Fin (65 / 4)
   \<and> effectiveH (coerce (Fin 22)) (coerce (Fin (3 / 8))) (coerce (Fin (1 / 2))) = Fin (169 / 8)
   \<and> rawLayout (Fin (17 / 2)) (Fin 11) (Fin 17) (Fin 22) (Fin (3 / 8)) (Fin (1 / 8))
               (Fin (3 / 8)) (Fin (1 / 2)) =
      \<lparr>layoutA = Some \<lparr>total_l = Fin 1, fitW = Fin 1, fitH = Fin 1, rotated = False,
                        cutW = Fin (17 / 2), cutH = Fin 11\<rparr>,
       layoutB = Some \<lparr>total_l = Fin 2, fitW = Fin 1, fitH = Fin 2, rotated = True,
                        cutW = Fin 11, cutH = Fin (17 / 2)\<rparr>,
       optimalKey = Some B, sheetW = Fin 17, sheetH = Fin 22, grip = Fin (1 / 2),
       lateralMargin = Fin (3 / 8), gutter = Fin (1 / 8), tail = Fin (3 / 8), error = None\<rparr>"
proof -
  have W: "effectiveW (Fin 17) (Fin (3 / 8)) = Fin (65 / 4)"
    by (simp add: effectiveW_def scenario1_rnd)
  have H: "effectiveH (Fin 22) (Fin (3 / 8)) (Fin (1 / 2)) = Fin (169 / 8)"
    by (simp add: effectiveH_def scenario1_rnd)
  have normal: "calculateFit (Fin (65 / 4)) (Fin (17 / 2)) (Fin (1 / 8)) = Fin 1"
    "calculateFit (Fin (169 / 8)) (Fin 11) (Fin (1 / 8)) = Fin 1"
    by (simp_all add: calculateFit_def EPSILON_def floor_rat_numeral scenario1_rnd)
  have turned: "calculateFit (Fin (65 / 4)) (Fin 11) (Fin (1 / 8)) = Fin 1"
    "calculateFit (Fin (169 / 8)) (Fin (17 / 2)) (Fin (1 / 8)) = Fin 2"
    by (simp_all add: calculateFit_def EPSILON_def floor_rat_numeral scenario1_rnd)
  show ?thesis
    using W H normal turned
    by (simp add: rawLayout_def Let_def coerce_Fin num_ge_def scenario1_rnd)
qed

subsection \<open>C5: the total of a candidate\<close>

text \<open>
  Claim C5. For both candidates of a valid request, the total is the product of the
  columns and the rows (the value of \<^verbatim>\<open>fitW * fitH\<close>).
\<close>

theorem total_consistency:
  fixes cw ch sw sh lm gu ta gr :: number
  defines "r \<equiv> rawLayout cw ch sw sh lm gu ta gr"
  assumes "error r = None"
  shows "\<exists>a b. layoutA r = Some a \<and> layoutB r = Some b
           \<and> total_l a = num_mul (fitW a) (fitH a)
           \<and> total_l b = num_mul (fitW b) (fitH b)"
proof -
  have e: "error (rawLayout cw ch sw sh lm gu ta gr) = None" using assms by simp
  show ?thesis
    unfolding r_def by (subst (1 2) rawLayout_valid[OF e]) simp
qed

theorem total_consistency_witness:
  "(let r = rawLayout (Fin (17 / 2)) (Fin 11) (Fin 17) (Fin 22) (Fin (3 / 8)) (Fin (1 / 8))
                      (Fin (3 / 8)) (Fin (1 / 2))
    in error r = None
       \<and> (\<exists>a b. layoutA r = Some a \<and> layoutB r = Some b
             \<and> total_l a = num_mul (fitW a) (fitH a) \<and> total_l b = num_mul (fitW b) (fitH b)
             \<and> total_l a = Fin 1 \<and> total_l b = Fin 2))"
proof -
  have e: "error (rawLayout (Fin (17 / 2)) (Fin 11) (Fin 17) (Fin 22) (Fin (3 / 8))
                    (Fin (1 / 8)) (Fin (3 / 8)) (Fin (1 / 2))) = None"
    by (simp add: scenario1_layout)
  from total_consistency[OF e] obtain a b where
    ab: "layoutA (rawLayout (Fin (17 / 2)) (Fin 11) (Fin 17) (Fin 22) (Fin (3 / 8))
                    (Fin (1 / 8)) (Fin (3 / 8)) (Fin (1 / 2))) = Some a"
      "layoutB (rawLayout (Fin (17 / 2)) (Fin 11) (Fin 17) (Fin 22) (Fin (3 / 8))
                    (Fin (1 / 8)) (Fin (3 / 8)) (Fin (1 / 2))) = Some b"
      "total_l a = num_mul (fitW a) (fitH a)" "total_l b = num_mul (fitW b) (fitH b)"
    by blast
  have "total_l a = Fin 1" "total_l b = Fin 2"
    using ab(1,2) by (auto simp: scenario1_layout)
  then show ?thesis using e ab unfolding Let_def by blast
qed

subsection \<open>C6: exact fits\<close>

text \<open>
  Claim C6. For a positive integer \<open>N\<close>, a positive piece length \<open>P\<close>, a gutter
  \<open>G \<ge> 0\<close> and a usable length \<open>L = N * P + (N - 1) * G\<close>, the fit is \<open>N\<close>. The source
  adds \<^verbatim>\<open>Number.EPSILON\<close> to that end ("para corregir problemas de precision de coma
  flotante") and still returns \<open>N - 1\<close> on the input below: piece 62, gutter \<open>2\<^sup>-\<^sup>4\<^sup>5\<close>
  (the text \<^verbatim>\<open>2.842170943040401e-14\<close>), usable length \<open>310 + 2\<^sup>-\<^sup>4\<^sup>3\<close> (the text
  \<^verbatim>\<open>310.0000000000001\<close>), which is five pieces and four gutters exactly. The sum
  \<open>L + G\<close> is not a binary64 value and rounds down to \<open>L\<close>, the quotient by \<open>P + G\<close>
  rounds to \<open>5 - 2\<^sup>-\<^sup>5\<^sup>0\<close>, adding \<open>2\<^sup>-\<^sup>5\<^sup>2\<close> rounds back to the same value, and the floor
  is 4.
\<close>

theorem exact_fit_undercount:
  "is_double (Fin 62) \<and> is_double (Fin (1 / 2 ^ 45)) \<and> is_double (Fin (310 + 1 / 2 ^ 43))
   \<and> rnd (3100000000000001 / 10 ^ 13) = Fin (310 + 1 / 2 ^ 43)
   \<and> rnd (2842170943040401 / 10 ^ 29) = Fin (1 / 2 ^ 45)
   \<and> (310 + 1 / 2 ^ 43 :: rat) = 5 * 62 + (5 - 1) * (1 / 2 ^ 45)
   \<and> calculateFit (Fin (310 + 1 / 2 ^ 43)) (Fin 62) (Fin (1 / 2 ^ 45)) = Fin 4
   \<and> map_option fitW
        (layoutA (rawLayout (Fin 62) (Fin 62) (Fin (310 + 1 / 2 ^ 43)) (Fin 62) (Fin 0)
                    (Fin (1 / 2 ^ 45)) (Fin 0) (Fin 0))) = Some (Fin 4)"
proof -
  have doubles: "is_double (Fin 62)" "is_double (Fin (1 / 2 ^ 45))"
    "is_double (Fin (310 + 1 / 2 ^ 43))"
    by (simp_all add: is_double_def exact_fit_rnd)
  have texts: "rnd (3100000000000001 / 10 ^ 13) = Fin (310 + 1 / 2 ^ 43)"
    "rnd (2842170943040401 / 10 ^ 29) = Fin (1 / 2 ^ 45)"
    by (simp_all add: exact_fit_rnd)
  have exact: "(310 + 1 / 2 ^ 43 :: rat) = 5 * 62 + (5 - 1) * (1 / 2 ^ 45)"
    by simp
  have sum_L: "num_add (Fin (310 + 1 / 2 ^ 43)) (Fin (1 / 2 ^ 45)) = Fin (310 + 1 / 2 ^ 43)"
    by (simp add: exact_fit_rnd)
  have sum_P: "num_add (Fin 62) (Fin (1 / 2 ^ 45)) = Fin (62 + 1 / 2 ^ 45)"
    by (simp add: exact_fit_rnd)
  have quotient: "num_div (Fin (310 + 1 / 2 ^ 43)) (Fin (62 + 1 / 2 ^ 45)) = Fin (5 - 1 / 2 ^ 50)"
    by (simp add: exact_fit_rnd)
  have biased: "num_add (Fin (5 - 1 / 2 ^ 50)) EPSILON = Fin (5 - 1 / 2 ^ 50)"
    by (simp add: EPSILON_def exact_fit_rnd)
  have floored: "Math_floor (Fin (5 - 1 / 2 ^ 50)) = Fin 4"
    by (simp add: floor_rat_numeral)
  have "\<not> num_le (Fin (62 + 1 / 2 ^ 45)) (Fin 0)" by simp
  then have count: "calculateFit (Fin (310 + 1 / 2 ^ 43)) (Fin 62) (Fin (1 / 2 ^ 45)) = Fin 4"
    unfolding calculateFit_def sum_L sum_P quotient biased floored by simp
  have columns: "map_option fitW
        (layoutA (rawLayout (Fin 62) (Fin 62) (Fin (310 + 1 / 2 ^ 43)) (Fin 62) (Fin 0)
                    (Fin (1 / 2 ^ 45)) (Fin 0) (Fin 0))) = Some (Fin 4)"
    by (simp add: exact_fit_layout)
  show ?thesis using doubles texts exact count columns by blast
qed

text \<open>
  The same happens to everyday decimal inputs, whose binary64 values carry the
  representation error the bias is meant to absorb: with pieces of 0.4 and a gutter of
  0.2, a usable length of 1.0 is reported to hold one piece, not two.
\<close>

lemma exact_fit_decimal_example:
  "calculateFit (Fin 1) (rnd (2 / 5)) (rnd (1 / 5)) = Fin 1"
  by (rule decimal_fit_count)

subsection \<open>C7: the gutter\<close>

text \<open>
  Claim C7 says that a larger gutter never gives more columns or rows. The source does
  not keep to it. A piece 2 by 2 does not fit a sheet 1 by 1 at gutter 0; at gutter
  \<open>2\<^sup>5\<^sup>3\<close> the quotient \<open>(1 + G) / (2 + G)\<close> is within \<^verbatim>\<open>Number.EPSILON\<close> of 1, and one
  column and one row are reported.
\<close>

theorem gutter_increase_counterexample:
  "is_double (Fin (2 ^ 53)) \<and> num_lt (Fin 0) (Fin (2 ^ 53))
   \<and> error (rawLayout (Fin 2) (Fin 2) (Fin 1) (Fin 1) (Fin 0) (Fin 0) (Fin 0) (Fin 0)) = None
   \<and> error (rawLayout (Fin 2) (Fin 2) (Fin 1) (Fin 1) (Fin 0) (Fin (2 ^ 53)) (Fin 0) (Fin 0)) = None
   \<and> map_option fitW
        (layoutA (rawLayout (Fin 2) (Fin 2) (Fin 1) (Fin 1) (Fin 0) (Fin 0) (Fin 0) (Fin 0)))
        = Some (Fin 0)
   \<and> map_option fitW
        (layoutA (rawLayout (Fin 2) (Fin 2) (Fin 1) (Fin 1) (Fin 0) (Fin (2 ^ 53)) (Fin 0) (Fin 0)))
        = Some (Fin 1)
   \<and> map_option fitH
        (layoutA (rawLayout (Fin 2) (Fin 2) (Fin 1) (Fin 1) (Fin 0) (Fin 0) (Fin 0) (Fin 0)))
        = Some (Fin 0)
   \<and> map_option fitH
        (layoutA (rawLayout (Fin 2) (Fin 2) (Fin 1) (Fin 1) (Fin 0) (Fin (2 ^ 53)) (Fin 0) (Fin 0)))
        = Some (Fin 1)
   \<and> \<not> num_le (Fin 1) (Fin 0)"
proof -
  have wide: "is_double (Fin (2 ^ 53))" "num_lt (Fin 0) (Fin (2 ^ 53))"
    by (simp_all add: is_double_def num_lt_def gutter_rnd)
  have narrow_fit: "calculateFit (Fin 1) (Fin 2) (Fin 0) = Fin 0"
    by (simp add: calculateFit_def EPSILON_def floor_rat_numeral gutter_rnd)
  have sums: "num_add (Fin 1) (Fin (2 ^ 53)) = Fin (2 ^ 53)"
    "num_add (Fin 2) (Fin (2 ^ 53)) = Fin (2 ^ 53 + 2)"
    by (simp_all add: gutter_rnd)
  have quotient: "num_div (Fin (2 ^ 53)) (Fin (2 ^ 53 + 2)) = Fin (1 - 1 / 2 ^ 52)"
    by (simp add: gutter_rnd)
  have biased: "num_add (Fin (1 - 1 / 2 ^ 52)) EPSILON = Fin 1"
    by (simp add: EPSILON_def gutter_rnd)
  have "\<not> num_le (Fin (2 ^ 53 + 2)) (Fin 0)" by simp
  then have wide_fit: "calculateFit (Fin 1) (Fin 2) (Fin (2 ^ 53)) = Fin 1"
    unfolding calculateFit_def sums quotient biased by simp
  have usable: "effectiveW (Fin 1) (Fin 0) = Fin 1" "effectiveH (Fin 1) (Fin 0) (Fin 0) = Fin 1"
    by (simp_all add: effectiveW_def effectiveH_def rnd_zero gutter_rnd)
  show ?thesis
    using wide usable narrow_fit wide_fit
    by (simp add: rawLayout_def Let_def coerce_Fin coerce_zero num_ge_def rnd_zero gutter_rnd)
qed

text \<open>
  A piece that fits is not enough either: where the sums \<open>L + G\<close> and \<open>P + G\<close> round, the
  count can go up with the gutter. Piece 1 by 1 on a usable area of \<open>5 + 2\<^sup>-\<^sup>5\<^sup>0\<close> each
  way: four columns at gutter \<open>3 * 2\<^sup>-\<^sup>5\<^sup>3\<close>, five at gutter \<open>2\<^sup>-\<^sup>5\<^sup>1\<close>.
\<close>

lemma gutter_rounding_example:
  "map_option fitW
     (layoutA (rawLayout (Fin 1) (Fin 1) (Fin (5 + 1 / 2 ^ 50)) (Fin (5 + 1 / 2 ^ 50)) (Fin 0)
                 (Fin (3 / 2 ^ 53)) (Fin 0) (Fin 0))) = Some (Fin 4)
   \<and> map_option fitW
     (layoutA (rawLayout (Fin 1) (Fin 1) (Fin (5 + 1 / 2 ^ 50)) (Fin (5 + 1 / 2 ^ 50)) (Fin 0)
                 (Fin (1 / 2 ^ 51)) (Fin 0) (Fin 0))) = Some (Fin 5)"
  by (simp add: rounded_sums_layout rounded_sums_wider_gutter_layout)

text \<open>
  Claim C7, amended. On an axis where the piece is positive and no longer than the usable
  length, and for two gutters \<open>0 \<le> g \<le> g'\<close> whose sums with the usable length and with
  the piece length are computed without rounding, the fit at \<open>g'\<close> is at most the fit
  at \<open>g\<close>.
\<close>

theorem calculateFit_gutter_monotone:
  fixes L P g g' :: rat
  assumes "0 < P" "P \<le> L" "0 \<le> g" "g \<le> g'"
    and "num_add (Fin L) (Fin g) = Fin (L + g)"
    and "num_add (Fin P) (Fin g) = Fin (P + g)"
    and "num_add (Fin L) (Fin g') = Fin (L + g')"
    and "num_add (Fin P) (Fin g') = Fin (P + g')"
  shows "num_le (calculateFit (Fin L) (Fin P) (Fin g')) (calculateFit (Fin L) (Fin P) (Fin g))"
proof -
  have pg: "0 < P + g" "0 < P + g'" using assms(1,3,4) by simp_all
  have "(g' - g) * P \<le> (g' - g) * L"
    using assms(2,4) by (intro mult_left_mono) simp_all
  then have "(L + g') * (P + g) \<le> (L + g) * (P + g')"
    by (simp add: algebra_simps)
  then have q: "(L + g') / (P + g') \<le> (L + g) / (P + g)"
    using pg by (simp add: field_simps)
  have nn: "0 \<le> (L + g') / (P + g')"
    using assms(1-4) pg by simp
  have f: "calculateFit (Fin L) (Fin P) (Fin h) =
      Math_floor (num_add (rnd ((L + h) / (P + h))) EPSILON)"
    if "0 < P + h" "num_add (Fin L) (Fin h) = Fin (L + h)" "num_add (Fin P) (Fin h) = Fin (P + h)"
    for h
    unfolding calculateFit_def that(2,3) using that(1) by simp
  have "num_le (num_add (rnd ((L + g') / (P + g'))) EPSILON)
               (num_add (rnd ((L + g) / (P + g))) EPSILON)"
    using nn q by (rule add_EPSILON_mono)
  then have "num_le (Math_floor (num_add (rnd ((L + g') / (P + g'))) EPSILON))
                    (Math_floor (num_add (rnd ((L + g) / (P + g))) EPSILON))"
    by (rule Math_floor_mono)
  then show ?thesis
    using f[OF pg(1) assms(5,6)] f[OF pg(2) assms(7,8)] by simp
qed

theorem calculateFit_gutter_monotone_witness:
  "(0::rat) < 2 \<and> (2::rat) \<le> 10 \<and> (0::rat) \<le> 0 \<and> (0::rat) \<le> 2
   \<and> num_add (Fin 10) (Fin 0) = Fin (10 + 0) \<and> num_add (Fin 2) (Fin 0) = Fin (2 + 0)
   \<and> num_add (Fin 10) (Fin 2) = Fin (10 + 2) \<and> num_add (Fin 2) (Fin 2) = Fin (2 + 2)
   \<and> calculateFit (Fin 10) (Fin 2) (Fin 0) = Fin 5
   \<and> calculateFit (Fin 10) (Fin 2) (Fin 2) = Fin 3
   \<and> num_le (calculateFit (Fin 10) (Fin 2) (Fin 2)) (calculateFit (Fin 10) (Fin 2) (Fin 0))"
proof -
  have s: "num_add (Fin 10) (Fin 0) = Fin (10 + 0)" "num_add (Fin 2) (Fin 0) = Fin (2 + 0)"
    "num_add (Fin 10) (Fin 2) = Fin (10 + 2)" "num_add (Fin 2) (Fin 2) = Fin (2 + 2)"
    by (simp_all add: gutter_rnd)
  have v: "calculateFit (Fin 10) (Fin 2) (Fin 0) = Fin 5"
    "calculateFit (Fin 10) (Fin 2) (Fin 2) = Fin 3"
    by (simp_all add: calculateFit_def EPSILON_def floor_rat_numeral gutter_rnd)
  have "num_le (calculateFit (Fin 10) (Fin 2) (Fin 2)) (calculateFit (Fin 10) (Fin 2) (Fin 0))"
    using calculateFit_gutter_monotone[of 2 10 0 2, OF _ _ _ _ s] by simp
  then show ?thesis using s v by simp
qed

subsection \<open>C8: coercion of the inputs\<close>

text \<open>
  Claim C8. Every value the computation uses is \<open>max(0, parsed)\<close>, and an input that is
  not a number, or is negative, counts as 0, before any check or fit: the result is the
  result on the coerced inputs, the echoed values are the coerced ones, and the coercion
  of a number is its maximum with 0, of NaN and of a negative number 0. (The source has
  eight such inputs, all treated alike.)
\<close>

theorem input_coercion:
  fixes p cw ch sw sh lm gu ta gr :: number
  defines "r \<equiv> rawLayout cw ch sw sh lm gu ta gr"
  shows "r = rawLayout (coerce cw) (coerce ch) (coerce sw) (coerce sh)
                       (coerce lm) (coerce gu) (coerce ta) (coerce gr)
    \<and> sheetW r = coerce sw \<and> sheetH r = coerce sh \<and> lateralMargin r = coerce lm
    \<and> gutter r = coerce gu \<and> tail r = coerce ta \<and> grip r = coerce gr
    \<and> (error r = None \<longrightarrow> map_option cutW (layoutA r) = Some (coerce cw)
                          \<and> map_option cutH (layoutA r) = Some (coerce ch))
    \<and> (p \<noteq> NaN \<longrightarrow> coerce p = Math_max (Fin 0) p)
    \<and> (p = NaN \<or> num_lt p (Fin 0) \<longrightarrow> coerce p = Fin 0)"
proof -
  have 1: "r = rawLayout (coerce cw) (coerce ch) (coerce sw) (coerce sh)
                       (coerce lm) (coerce gu) (coerce ta) (coerce gr)"
    by (simp add: r_def rawLayout_def Let_def coerce_idem)
  have 2: "sheetW r = coerce sw \<and> sheetH r = coerce sh \<and> lateralMargin r = coerce lm
    \<and> gutter r = coerce gu \<and> tail r = coerce ta \<and> grip r = coerce gr"
    by (simp add: r_def rawLayout_def Let_def)
  have 3: "error r = None \<longrightarrow> map_option cutW (layoutA r) = Some (coerce cw)
                          \<and> map_option cutH (layoutA r) = Some (coerce ch)"
    by (simp add: r_def rawLayout_def Let_def)
  have 4: "p \<noteq> NaN \<longrightarrow> coerce p = Math_max (Fin 0) p"
    by (cases p) (simp_all add: coerce_def or_else_def Math_max_def)
  have 5: "p = NaN \<or> num_lt p (Fin 0) \<longrightarrow> coerce p = Fin 0"
    by (cases p) (auto simp: coerce_def or_else_def Math_max_def num_lt_def)
  show ?thesis using 1 2 3 4 5 by blast
qed

theorem input_coercion_witness:
  "Fin (- 3) \<noteq> NaN \<and> num_lt (Fin (- 3)) (Fin 0)
   \<and> coerce (Fin (- 3)) = Math_max (Fin 0) (Fin (- 3)) \<and> coerce (Fin (- 3)) = Fin 0
   \<and> (let r = rawLayout (Fin (17 / 2)) (Fin 11) (Fin 17) (Fin 22) (Fin (- 3)) (Fin (1 / 8))
                         NaN (Fin (1 / 2))
       in error r = None
          \<and> r = rawLayout (Fin (17 / 2)) (Fin 11) (Fin 17) (Fin 22) (Fin 0) (Fin (1 / 8))
                          (Fin 0) (Fin (1 / 2))
          \<and> lateralMargin r = Fin 0 \<and> tail r = Fin 0
          \<and> map_option cutW (layoutA r) = Some (Fin (17 / 2)))"
proof -
  have c: "coerce NaN = Fin 0" "coerce (Fin (- 3)) = Fin 0"
    by (simp_all add: coerce_zero)
  have e: "error (rawLayout (Fin (17 / 2)) (Fin 11) (Fin 17) (Fin 22) (Fin (- 3)) (Fin (1 / 8))
                    NaN (Fin (1 / 2))) = None"
    by (simp add: rawLayout_error_iff c coerce_Fin num_ge_def scenario1_rnd rnd_zero)
  have n: "num_lt (Fin (- 3)) (Fin 0)" by (simp add: num_lt_def)
  show ?thesis
    using e n
      input_coercion[where cw="Fin (17 / 2)" and ch="Fin 11" and sw="Fin 17" and sh="Fin 22"
        and lm="Fin (- 3)" and gu="Fin (1 / 8)" and ta=NaN and gr="Fin (1 / 2)"
        and p="Fin (- 3)"]
    by (auto simp: Let_def c coerce_Fin)
qed

subsection \<open>C9: swapping the clearances\<close>

text \<open>
  Claim C9 says that swapping \<^verbatim>\<open>tail\<close> and \<^verbatim>\<open>grip\<close> changes neither the error nor
  the candidates nor the optimal key, the two entering only through their sum. The check
  uses the sum, but the usable height is \<^verbatim>\<open>SH - G_calc - T_calc\<close>, two subtractions
  one after the other, each rounded. Sheet 17 by 17, piece 0.4 by 0.4, gutter 0.1, no
  lateral margin: with tail 0.6 and grip 0.5 the usable height is 15.899999999999999
  and there are 31 rows; with tail 0.5 and grip 0.6 it is 15.9 and there are 32.
\<close>

theorem clearance_swap_counterexample:
  "effectiveH (Fin 17) (rnd (3 / 5)) (Fin (1 / 2)) \<noteq> effectiveH (Fin 17) (Fin (1 / 2)) (rnd (3 / 5))
   \<and> error (rawLayout (rnd (2 / 5)) (rnd (2 / 5)) (Fin 17) (Fin 17) (Fin 0) (rnd (1 / 10))
            (rnd (3 / 5)) (Fin (1 / 2))) = None
   \<and> error (rawLayout (rnd (2 / 5)) (rnd (2 / 5)) (Fin 17) (Fin 17) (Fin 0) (rnd (1 / 10))
            (Fin (1 / 2)) (rnd (3 / 5))) = None
   \<and> map_option fitH
        (layoutA (rawLayout (rnd (2 / 5)) (rnd (2 / 5)) (Fin 17) (Fin 17) (Fin 0) (rnd (1 / 10))
                    (rnd (3 / 5)) (Fin (1 / 2)))) = Some (Fin 31)
   \<and> map_option fitH
        (layoutA (rawLayout (rnd (2 / 5)) (rnd (2 / 5)) (Fin 17) (Fin 17) (Fin 0) (rnd (1 / 10))
                    (Fin (1 / 2)) (rnd (3 / 5)))) = Some (Fin 32)
   \<and> map_option total_l
        (layoutA (rawLayout (rnd (2 / 5)) (rnd (2 / 5)) (Fin 17) (Fin 17) (Fin 0) (rnd (1 / 10))
                    (rnd (3 / 5)) (Fin (1 / 2)))) = Some (Fin 1054)
   \<and> map_option total_l
        (layoutA (rawLayout (rnd (2 / 5)) (rnd (2 / 5)) (Fin 17) (Fin 17) (Fin 0) (rnd (1 / 10))
                    (Fin (1 / 2)) (rnd (3 / 5)))) = Some (Fin 1088)"
proof -
  have tail_first: "effectiveH (Fin 17) (rnd (3 / 5)) (Fin (1 / 2))
      = Fin (2237726064849715 / 2 ^ 47)"
    by (simp add: effectiveH_def clearances_rnd)
  have grip_first: "effectiveH (Fin 17) (Fin (1 / 2)) (rnd (3 / 5))
      = Fin (8950904259398861 / 2 ^ 49)"
    by (simp add: effectiveH_def clearances_rnd)
  have differ: "effectiveH (Fin 17) (rnd (3 / 5)) (Fin (1 / 2))
      \<noteq> effectiveH (Fin 17) (Fin (1 / 2)) (rnd (3 / 5))"
    unfolding tail_first grip_first by simp
  have rows: "calculateFit (Fin (2237726064849715 / 2 ^ 47)) (rnd (2 / 5)) (rnd (1 / 10)) = Fin 31"
    "calculateFit (Fin (8950904259398861 / 2 ^ 49)) (rnd (2 / 5)) (rnd (1 / 10)) = Fin 32"
    by (simp_all add: calculateFit_def EPSILON_def floor_rat_numeral clearances_rnd)
  show ?thesis
    using differ rows by (simp add: clearances_layout clearances_swapped_layout)
qed

text \<open>
  Claim C9, amended. Swapping the two clearances leaves the error unchanged; it leaves
  both candidates and the optimal key unchanged whenever the usable height comes out the
  same in both orders of subtraction.
\<close>

theorem clearance_swap:
  fixes cw ch sw sh lm gu ta gr :: number
  defines "r \<equiv> rawLayout cw ch sw sh lm gu ta gr"
    and "r' \<equiv> rawLayout cw ch sw sh lm gu gr ta"
  shows "error r = error r'
    \<and> (effectiveH (coerce sh) (coerce ta) (coerce gr)
          = effectiveH (coerce sh) (coerce gr) (coerce ta)
         \<longrightarrow> layoutA r = layoutA r' \<and> layoutB r = layoutB r' \<and> optimalKey r = optimalKey r')"
  unfolding r_def r'_def
  by (simp add: rawLayout_def Let_def num_add_commute[of "coerce gr" "coerce ta"])

theorem clearance_swap_witness:
  "(let r = rawLayout (Fin (17 / 2)) (Fin 11) (Fin 17) (Fin 22) (Fin (3 / 8)) (Fin (1 / 8))
                      (Fin (3 / 8)) (Fin (1 / 2));
        r' = rawLayout (Fin (17 / 2)) (Fin 11) (Fin 17) (Fin 22) (Fin (3 / 8)) (Fin (1 / 8))
                      (Fin (1 / 2)) (Fin (3 / 8))
    in effectiveH (Fin 22) (Fin (3 / 8)) (Fin (1 / 2))
         = effectiveH (Fin 22) (Fin (1 / 2)) (Fin (3 / 8))
       \<and> error r = error r' \<and> layoutA r = layoutA r' \<and> layoutB r = layoutB r'
       \<and> optimalKey r = optimalKey r')"
proof -
  have h: "effectiveH (Fin 22) (Fin (3 / 8)) (Fin (1 / 2))
             = effectiveH (Fin 22) (Fin (1 / 2)) (Fin (3 / 8))"
    by (simp add: effectiveH_def scenario1_rnd)
  show ?thesis
    using h
      clearance_swap[where cw="Fin (17 / 2)" and ch="Fin 11" and sw="Fin 17" and sh="Fin 22"
        and lm="Fin (3 / 8)" and gu="Fin (1 / 8)" and ta="Fin (3 / 8)" and gr="Fin (1 / 2)"]
    by (simp add: Let_def coerce_Fin)
qed

subsection \<open>C10: turning the piece\<close>

text \<open>
  Claim C10. For a valid request with piece \<open>(w, h)\<close>, the request with piece \<open>(h, w)\<close> and
  everything else the same is valid too, and the rotated candidate of the one has the
  columns, rows and total of the normal candidate of the other, both ways round.
\<close>

theorem piece_swap_exchanges_candidates:
  fixes w h sw sh lm gu ta gr :: number
  defines "r \<equiv> rawLayout w h sw sh lm gu ta gr"
    and "r' \<equiv> rawLayout h w sw sh lm gu ta gr"
  assumes "error r = None"
  shows "error r' = None
    \<and> (\<exists>a b a' b'. layoutA r = Some a \<and> layoutB r = Some b
          \<and> layoutA r' = Some a' \<and> layoutB r' = Some b'
          \<and> fitW b = fitW a' \<and> fitH b = fitH a' \<and> total_l b = total_l a'
          \<and> fitW a = fitW b' \<and> fitH a = fitH b' \<and> total_l a = total_l b')"
proof -
  have e: "error (rawLayout w h sw sh lm gu ta gr) = None" using assms by simp
  then have e': "error (rawLayout h w sw sh lm gu ta gr) = None"
    by (simp add: rawLayout_error_iff disj_commute)
  show ?thesis
    unfolding r_def r'_def
    by (subst (1 2 3) rawLayout_valid[OF e'], subst (1 2) rawLayout_valid[OF e]) simp
qed

theorem piece_swap_exchanges_candidates_witness:
  "(let r = rawLayout (Fin (17 / 2)) (Fin 11) (Fin 17) (Fin 22) (Fin (3 / 8)) (Fin (1 / 8))
                      (Fin (3 / 8)) (Fin (1 / 2));
        r' = rawLayout (Fin 11) (Fin (17 / 2)) (Fin 17) (Fin 22) (Fin (3 / 8)) (Fin (1 / 8))
                      (Fin (3 / 8)) (Fin (1 / 2))
    in error r = None \<and> error r' = None
       \<and> map_option fitW (layoutB r) = map_option fitW (layoutA r')
       \<and> map_option fitH (layoutB r) = map_option fitH (layoutA r')
       \<and> map_option total_l (layoutB r) = map_option total_l (layoutA r')
       \<and> map_option fitW (layoutA r) = map_option fitW (layoutB r')
       \<and> map_option fitH (layoutA r) = map_option fitH (layoutB r')
       \<and> map_option total_l (layoutA r) = map_option total_l (layoutB r')
       \<and> map_option total_l (layoutB r) = Some (Fin 2))"
proof -
  have e: "error (rawLayout (Fin (17 / 2)) (Fin 11) (Fin 17) (Fin 22) (Fin (3 / 8))
                    (Fin (1 / 8)) (Fin (3 / 8)) (Fin (1 / 2))) = None"
    by (simp add: scenario1_layout)
  have t: "map_option total_l
             (layoutB (rawLayout (Fin (17 / 2)) (Fin 11) (Fin 17) (Fin 22) (Fin (3 / 8))
                         (Fin (1 / 8)) (Fin (3 / 8)) (Fin (1 / 2)))) = Some (Fin 2)"
    by (simp add: scenario1_layout)
  show ?thesis
    using e t piece_swap_exchanges_candidates[OF e]
    by (auto simp: Let_def)
qed

end
